theory Spec2Isabelle
  imports Main "HOL-Library.Sublist"
begin

section \<open>Data model (server/src/types.ts)\<close>

text \<open>
  JavaScript strings and Buffers are modelled as \<open>string\<close> (a list of characters); the
  methods of strings whose result depends on Unicode tables (\<open>toLowerCase\<close>, \<open>trim\<close>,
  \<open>localeCompare\<close>) are functions of the platform, not fixed here. JavaScript numbers that
  hold integers (versions, cost parameters, millisecond clocks,
  counters) as \<open>int\<close>. An optional field (\<open>notes?\<close>, \<open>hmac?\<close>, \<open>blockedUntil?\<close>) is an
  \<open>option\<close>. The fields \<open>id\<close> and \<open>notes\<close> of an entry are called \<open>entry_id\<close> and \<open>entry_notes\<close>, the scrypt
  parameters \<open>N\<close>, \<open>r\<close>, \<open>p\<close> are called \<open>kdf_N\<close>, \<open>kdf_r\<close>, \<open>kdf_p\<close>.
\<close>

type_synonym bytes = string

record VaultEntry =
  entry_id :: string
  site :: string
  domain :: string
  username :: string
  password :: string
  entry_notes :: "string option"
  createdAt :: string
  updatedAt :: string

text \<open>
  The vault data that the code holds comes from \<open>JSON.parse(plaintext) as VaultData\<close>, a cast
  that checks nothing. A value of type \<open>VaultData\<close> is \<open>Vault es\<close>, an object whose \<open>entries\<close>
  is the array \<open>es\<close> of entries, or \<open>Unshaped t\<close>, the value of the JSON text \<open>t\<close> when it is
  \<open>null\<close> or has no \<open>entries\<close> (as \<open>{}\<close>): reading \<open>vault.entries.length\<close>, or calling
  \<open>filter\<close>, \<open>push\<close> or \<open>findIndex\<close> on \<open>vault.entries\<close>, then throws a TypeError. A value
  whose \<open>entries\<close> is present without being an array of entries is not represented.
\<close>

datatype VaultData = Vault "VaultEntry list" | Unshaped string

record KdfParams =
  salt :: string
  kdf_N :: int
  kdf_r :: int
  kdf_p :: int
  keyLength :: int

record CipherPayload =
  iv :: string
  data :: string
  authTag :: string

record VaultFile =
  version :: int
  kdf :: KdfParams
  cipher :: CipherPayload
  hmac :: "string option"

record SessionData =
  token :: string
  key :: bytes
  session_kdf :: KdfParams
  vault :: VaultData
  lastActivity :: int


section \<open>Errors\<close>

text \<open>
  Every \<open>throw\<close> of the source is one constructor. \<open>HMAC_MISSING\<close> and \<open>HMAC_TAMPERED\<close> are the
  two "Vault integrity check failed" errors of \<open>decryptVaultWithKey\<close>; \<open>CIPHER_AUTH_FAILED\<close> is
  the exception of the AES-GCM decipher (wrong key or corrupted ciphertext);
  \<open>CIPHER_ERROR\<close> is the exception of the cipher on encryption; \<open>SCRYPT_ERROR\<close> is the rejected
  promise of \<open>deriveKey\<close>; \<open>JSON_SYNTAX\<close> is the exception of \<open>JSON.parse\<close>; \<open>TYPE_ERROR\<close> is
  the TypeError of reading the entries of vault data that has none; \<open>IO_ERROR\<close> is a failed
  file-system call.
\<close>

datatype error =
    SCRYPT_ERROR
  | CIPHER_ERROR
  | CIPHER_AUTH_FAILED
  | HMAC_MISSING
  | HMAC_TAMPERED
  | JSON_SYNTAX
  | TYPE_ERROR
  | NO_VAULT
  | LOCKED
  | INVALID_SESSION
  | NOT_FOUND
  | IO_ERROR

text \<open>The error kinds of the specification, as predicates on the errors of the code.\<close>

definition is_IntegrityError :: "error \<Rightarrow> bool" where
  "is_IntegrityError e = (e = HMAC_MISSING \<or> e = HMAC_TAMPERED)"

definition is_AuthenticationError :: "error \<Rightarrow> bool" where
  "is_AuthenticationError e = (e = CIPHER_AUTH_FAILED)"

text \<open>Reading \<open>vault.entries\<close> to use it as an array.\<close>

definition entries_of :: "VaultData \<Rightarrow> error + VaultEntry list" where
  "entries_of d = (case d of Vault es \<Rightarrow> Inr es | Unshaped t \<Rightarrow> Inl TYPE_ERROR)"


section \<open>The platform: Node's crypto module, JSON, URL and String\<close>

text \<open>
  The library functions the repository calls are parameters of the model; the code of the
  repository is translated over them.
  \<^item> \<open>scrypt password salt keyLength N r p maxmem\<close>: \<open>crypto.scrypt\<close>; \<open>None\<close> when the
    callback receives an error.
  \<^item> \<open>aes_gcm_seal key iv plaintext\<close>: \<open>createCipheriv('aes-256-gcm', key, iv)\<close>, \<open>update\<close>,
    \<open>final\<close> and \<open>getAuthTag\<close>, giving the base64 ciphertext and tag; \<open>None\<close> when the
    cipher throws (a key that is not 32 bytes long).
  \<^item> \<open>aes_gcm_open key iv data authTag\<close>: \<open>createDecipheriv\<close>, \<open>setAuthTag\<close>, \<open>update\<close> and
    \<open>final\<close> on the base64 fields; \<open>None\<close> when the decipher throws.
  \<^item> \<open>hmac_sha256 key message\<close>: \<open>createHmac('sha256', key).update(message).digest('base64')\<close>.
  \<^item> \<open>json_header version kdf cipher\<close>: \<open>JSON.stringify({version, kdf, cipher})\<close>.
  \<^item> \<open>json_data\<close> and \<open>json_parse\<close>: \<open>JSON.stringify\<close> and \<open>JSON.parse\<close> of vault data,
    shaped or not; \<open>None\<close> when \<open>JSON.parse\<close> throws.
  \<^item> \<open>url_hostname\<close>: \<open>new URL(s).hostname\<close>; \<open>None\<close> when the constructor throws.
  \<^item> \<open>localeCompare\<close>, \<open>toLowerCase\<close> and \<open>trim\<close>: the methods of \<open>String.prototype\<close>.
\<close>

record platform =
  scrypt :: "string \<Rightarrow> string \<Rightarrow> int \<Rightarrow> int \<Rightarrow> int \<Rightarrow> int \<Rightarrow> int \<Rightarrow> bytes option"
  aes_gcm_seal :: "bytes \<Rightarrow> string \<Rightarrow> string \<Rightarrow> (string \<times> string) option"
  aes_gcm_open :: "bytes \<Rightarrow> string \<Rightarrow> string \<Rightarrow> string \<Rightarrow> string option"
  hmac_sha256 :: "bytes \<Rightarrow> string \<Rightarrow> string"
  json_header :: "int \<Rightarrow> KdfParams \<Rightarrow> CipherPayload \<Rightarrow> string"
  json_data :: "VaultData \<Rightarrow> string"
  json_parse :: "string \<Rightarrow> VaultData option"
  url_hostname :: "string \<Rightarrow> string option"
  localeCompare :: "string \<Rightarrow> string \<Rightarrow> int"
  toLowerCase :: "string \<Rightarrow> string"
  trim :: "string \<Rightarrow> string"


section \<open>Vault encryption (server/src/crypto/vaultCrypto.ts)\<close>

text \<open>The 16 random bytes of the salt and the 12 random bytes of the nonce are arguments.\<close>

definition generateKdfParams :: "string \<Rightarrow> KdfParams" where
  "generateKdfParams rnd_salt =
     \<lparr>salt = rnd_salt, kdf_N = 2 ^ 16, kdf_r = 8, kdf_p = 1, keyLength = 32\<rparr>"

definition deriveKey :: "platform \<Rightarrow> string \<Rightarrow> KdfParams \<Rightarrow> error + bytes" where
  "deriveKey P masterPassword params =
     (let maxmem = 128 * 1024 * 1024 in
      case scrypt P masterPassword (salt params) (keyLength params)
             (kdf_N params) (kdf_r params) (kdf_p params) maxmem of
        None \<Rightarrow> Inl SCRYPT_ERROR
      | Some k \<Rightarrow> Inr k)"

definition encryptPayload :: "platform \<Rightarrow> string \<Rightarrow> string \<Rightarrow> bytes \<Rightarrow> error + CipherPayload" where
  "encryptPayload P rnd_iv plaintext k =
     (case aes_gcm_seal P k rnd_iv plaintext of
        None \<Rightarrow> Inl CIPHER_ERROR
      | Some (encrypted, tag) \<Rightarrow> Inr \<lparr>iv = rnd_iv, data = encrypted, authTag = tag\<rparr>)"

definition decryptPayload :: "platform \<Rightarrow> CipherPayload \<Rightarrow> bytes \<Rightarrow> error + string" where
  "decryptPayload P payload k =
     (case aes_gcm_open P k (iv payload) (data payload) (authTag payload) of
        None \<Rightarrow> Inl CIPHER_AUTH_FAILED
      | Some decrypted \<Rightarrow> Inr decrypted)"

definition computeHMAC :: "platform \<Rightarrow> int \<Rightarrow> KdfParams \<Rightarrow> CipherPayload \<Rightarrow> bytes \<Rightarrow> string" where
  "computeHMAC P ver params payload k = hmac_sha256 P k (json_header P ver params payload)"

definition encryptVaultWithKey ::
  "platform \<Rightarrow> string \<Rightarrow> VaultData \<Rightarrow> bytes \<Rightarrow> KdfParams \<Rightarrow> error + VaultFile" where
  "encryptVaultWithKey P rnd_iv d k params =
     (case encryptPayload P rnd_iv (json_data P d) k of
        Inl e \<Rightarrow> Inl e
      | Inr payload \<Rightarrow>
          Inr \<lparr>version = 2, kdf = params, cipher = payload,
               hmac = Some (computeHMAC P 2 params payload k)\<rparr>)"

definition encryptVault ::
  "platform \<Rightarrow> string \<Rightarrow> string \<Rightarrow> VaultData \<Rightarrow> string \<Rightarrow> error + (VaultFile \<times> bytes)" where
  "encryptVault P rnd_salt rnd_iv d masterPassword =
     (let params = generateKdfParams rnd_salt in
      case deriveKey P masterPassword params of
        Inl e \<Rightarrow> Inl e
      | Inr k \<Rightarrow>
          (case encryptVaultWithKey P rnd_iv d k params of
             Inl e \<Rightarrow> Inl e
           | Inr v \<Rightarrow> Inr (v, k)))"

text \<open>\<open>!vault.hmac\<close> holds of an absent field and of the empty string.\<close>

definition hmac_absent :: "VaultFile \<Rightarrow> bool" where
  "hmac_absent v = (hmac v = None \<or> hmac v = Some [])"

definition decryptVaultWithKey :: "platform \<Rightarrow> VaultFile \<Rightarrow> bytes \<Rightarrow> error + VaultData" where
  "decryptVaultWithKey P v k =
     (if version v \<ge> 2 \<and> hmac_absent v then Inl HMAC_MISSING
      else if version v \<ge> 2 \<and> hmac v \<noteq> Some (computeHMAC P (version v) (kdf v) (cipher v) k)
        then Inl HMAC_TAMPERED
      else
        (case decryptPayload P (cipher v) k of
           Inl e \<Rightarrow> Inl e
         | Inr plaintext \<Rightarrow>
             (case json_parse P plaintext of
                None \<Rightarrow> Inl JSON_SYNTAX
              | Some d \<Rightarrow> Inr d)))"

definition decryptVault ::
  "platform \<Rightarrow> VaultFile \<Rightarrow> string \<Rightarrow> error + (VaultData \<times> bytes \<times> KdfParams)" where
  "decryptVault P v masterPassword =
     (case deriveKey P masterPassword (kdf v) of
        Inl e \<Rightarrow> Inl e
      | Inr k \<Rightarrow>
          (case decryptVaultWithKey P v k of
             Inl e \<Rightarrow> Inl e
           | Inr d \<Rightarrow> Inr (d, k, kdf v)))"


section \<open>Domain utilities (server/src/utils/domain.ts)\<close>

text \<open>
  \<open>s.includes(t)\<close> is \<open>sublist t s\<close>, \<open>s.endsWith(t)\<close> is \<open>suffix t s\<close>, and
  \<open>replace(/^www\\./, '')\<close> is \<open>strip_www\<close>.
\<close>

definition strip_www :: "string \<Rightarrow> string" where
  "strip_www h = (if prefix ''www.'' h then drop 4 h else h)"

definition normalizeDomain :: "platform \<Rightarrow> string \<Rightarrow> string" where
  "normalizeDomain P input =
     (let formatted = (if sublist ''://'' input then input else ''https://'' @ input) in
      case url_hostname P formatted of
        Some hostname \<Rightarrow> toLowerCase P (strip_www hostname)
      | None \<Rightarrow> toLowerCase P (trim P input))"

definition domainMatches :: "platform \<Rightarrow> string \<Rightarrow> string \<Rightarrow> bool" where
  "domainMatches P entryDomain targetDomain =
     (let cleanEntry = normalizeDomain P entryDomain;
          cleanTarget = normalizeDomain P targetDomain
      in cleanTarget = cleanEntry \<or> suffix (''.'' @ cleanEntry) cleanTarget)"

text \<open>
  The matching rule in the words of the specification, for two normalized domains: the
  target is a strict dot-boundary subdomain of the entry's domain when it is strictly
  longer, ends with the entry's domain, and the character just before that ending is a dot.
\<close>

definition spec_strict_subdomain :: "string \<Rightarrow> string \<Rightarrow> bool" where
  "spec_strict_subdomain target entry =
     (length entry < length target
      \<and> drop (length target - length entry) target = entry
      \<and> target ! (length target - length entry - 1) = CHR ''.'')"

definition spec_match :: "string \<Rightarrow> string \<Rightarrow> bool" where
  "spec_match target entry = (target = entry \<or> spec_strict_subdomain target entry)"

text \<open>
  The normalization in the words of the specification: lowercase, strip the scheme (the
  text up to the first \<open>://\<close>), strip a leading \<open>www.\<close>, strip path and query (the text from
  the first \<open>/\<close> or \<open>?\<close>).
\<close>

fun after_scheme :: "string \<Rightarrow> string" where
  "after_scheme [] = []"
| "after_scheme (c # cs) =
     (if prefix ''://'' (c # cs) then drop 3 (c # cs) else after_scheme cs)"

definition spec_strip_scheme :: "string \<Rightarrow> string" where
  "spec_strip_scheme s = (if sublist ''://'' s then after_scheme s else s)"

definition spec_strip_path :: "string \<Rightarrow> string" where
  "spec_strip_path s = takeWhile (\<lambda>c. c \<noteq> CHR ''/'' \<and> c \<noteq> CHR ''?'') s"

definition spec_normalize :: "platform \<Rightarrow> string \<Rightarrow> string" where
  "spec_normalize P s = spec_strip_path (strip_www (spec_strip_scheme (toLowerCase P s)))"


section \<open>Vault storage (server/src/storage/vaultStorage.ts)\<close>

text \<open>
  The disk holds the content of \<open>VAULT_PATH\<close>: nothing, the JSON of a vault file, or text
  that \<open>JSON.parse\<close> rejects (JSON of another shape, which the cast to \<open>VaultFile\<close> lets
  through, is not represented). The outcome of each file-system call is an input of the
  environment of an operation, together with the clock, the UUID and the random bytes the
  operation draws. \<open>writeVaultFile\<close> makes the directory, writes the temporary file, renames
  it over the target and sets the permissions: a failure before the rename has happened
  leaves the target as it was, a failure of the final \<open>chmod\<close> leaves the new file.
\<close>

datatype disk_content = Stored VaultFile | Unparseable

datatype write_fault = NoFault | MkdirFails | WriteTmpFails | RenameFails | ChmodFails

record env =
  env_now :: int
  env_iso :: string
  env_uuid :: string
  env_salt :: string
  env_iv :: string
  fs_access_ok :: bool
  fs_read_ok :: bool
  fs_write_fault :: write_fault

definition vaultExists :: "env \<Rightarrow> disk_content option \<Rightarrow> bool" where
  "vaultExists E D = (fs_access_ok E \<and> D \<noteq> None)"

definition readVaultFile :: "env \<Rightarrow> disk_content option \<Rightarrow> error + VaultFile" where
  "readVaultFile E D =
     (if \<not> fs_read_ok E then Inl IO_ERROR
      else case D of
        None \<Rightarrow> Inl IO_ERROR
      | Some Unparseable \<Rightarrow> Inl JSON_SYNTAX
      | Some (Stored v) \<Rightarrow> Inr v)"

definition writeVaultFile ::
  "env \<Rightarrow> disk_content option \<Rightarrow> VaultFile \<Rightarrow> (error + unit) \<times> disk_content option" where
  "writeVaultFile E D v =
     (case fs_write_fault E of
        NoFault \<Rightarrow> (Inr (), Some (Stored v))
      | MkdirFails \<Rightarrow> (Inl IO_ERROR, D)
      | WriteTmpFails \<Rightarrow> (Inl IO_ERROR, D)
      | RenameFails \<Rightarrow> (Inl IO_ERROR, D)
      | ChmodFails \<Rightarrow> (Inl IO_ERROR, Some (Stored v)))"


section \<open>The vault service (server/src/vaultService.ts)\<close>

text \<open>
  The state of a \<open>VaultService\<close> is its three fields; the pending \<open>setTimeout\<close> is the time at
  which it fires. An operation takes the state and the disk and returns its result with
  the state and the disk it leaves, also when it throws.
\<close>

record VaultService =
  lockTimeoutMs :: int
  session :: "SessionData option"
  lockTimer :: "int option"

record status_report =
  locked :: bool
  entryCount :: nat
  status_lastActivity :: "int option"

definition status :: "VaultService \<Rightarrow> error + status_report" where
  "status S =
     (case session S of
        None \<Rightarrow> Inr \<lparr>locked = True, entryCount = 0, status_lastActivity = None\<rparr>
      | Some s \<Rightarrow>
          (case entries_of (vault s) of
             Inl e \<Rightarrow> Inl e
           | Inr es \<Rightarrow>
               Inr \<lparr>locked = False, entryCount = length es,
                    status_lastActivity = Some (lastActivity s)\<rparr>))"

definition clearLockTimer :: "VaultService \<Rightarrow> VaultService" where
  "clearLockTimer S = S\<lparr>lockTimer := None\<rparr>"

text \<open>\<open>setTimeout\<close> takes a delay above \<open>2\<^sup>3\<^sup>1 - 1\<close> milliseconds as 1 millisecond.\<close>

definition timeout_delay :: "int \<Rightarrow> int" where
  "timeout_delay ms = (if ms > 2147483647 then 1 else ms)"

definition scheduleLock :: "env \<Rightarrow> VaultService \<Rightarrow> VaultService" where
  "scheduleLock E S =
     (let S1 = clearLockTimer S in
      if lockTimeoutMs S1 \<le> 0 then S1
      else S1\<lparr>lockTimer := Some (env_now E + timeout_delay (lockTimeoutMs S1))\<rparr>)"

definition touch :: "env \<Rightarrow> VaultService \<Rightarrow> VaultService" where
  "touch E S =
     (case session S of
        None \<Rightarrow> S
      | Some s \<Rightarrow> scheduleLock E (S\<lparr>session := Some (s\<lparr>lastActivity := env_now E\<rparr>)\<rparr>))"

definition requireSession ::
  "env \<Rightarrow> VaultService \<Rightarrow> string \<Rightarrow> (error + SessionData) \<times> VaultService" where
  "requireSession E S tok =
     (case session S of
        None \<Rightarrow> (Inl LOCKED, S)
      | Some s \<Rightarrow>
          if token s \<noteq> tok then (Inl INVALID_SESSION, S)
          else (let S' = touch E S in
                (Inr (case session S' of Some s' \<Rightarrow> s' | None \<Rightarrow> s), S')))"

definition touchSession :: "env \<Rightarrow> VaultService \<Rightarrow> string \<Rightarrow> (error + unit) \<times> VaultService" where
  "touchSession E S tok =
     (case requireSession E S tok of
        (Inl e, S') \<Rightarrow> (Inl e, S')
      | (Inr s, S') \<Rightarrow> (Inr (), S'))"

definition lock :: "VaultService \<Rightarrow> VaultService" where
  "lock S = (clearLockTimer S)\<lparr>session := None\<rparr>"

text \<open>The callback of the timer: it runs \<open>lock\<close> once the time of the timer has come.\<close>

definition timer_elapsed :: "int \<Rightarrow> VaultService \<Rightarrow> VaultService" where
  "timer_elapsed t S =
     (case lockTimer S of
        None \<Rightarrow> S
      | Some deadline \<Rightarrow> if deadline \<le> t then lock S else S)"

record unlock_result =
  created :: bool
  result_token :: string
  result_entries :: nat

definition emptyVault :: VaultData where
  "emptyVault = Vault []"

definition unlock ::
  "platform \<Rightarrow> env \<Rightarrow> VaultService \<Rightarrow> disk_content option \<Rightarrow> string \<Rightarrow> bool
     \<Rightarrow> (error + unlock_result) \<times> VaultService \<times> disk_content option" where
  "unlock P E S D masterPassword createIfMissing =
     (if \<not> vaultExists E D then
        (if \<not> createIfMissing then (Inl NO_VAULT, S, D)
         else
           (case encryptVault P (env_salt E) (env_iv E) emptyVault masterPassword of
              Inl e \<Rightarrow> (Inl e, S, D)
            | Inr (v, k) \<Rightarrow>
                (case writeVaultFile E D v of
                   (Inl e, D') \<Rightarrow> (Inl e, S, D')
                 | (Inr u, D') \<Rightarrow>
                     (let S' = S\<lparr>session := Some \<lparr>token = env_uuid E, key = k,
                                   session_kdf = kdf v, vault = emptyVault,
                                   lastActivity = env_now E\<rparr>\<rparr>
                      in (Inr \<lparr>created = True, result_token = env_uuid E, result_entries = 0\<rparr>,
                          scheduleLock E S', D')))))
      else
        (case readVaultFile E D of
           Inl e \<Rightarrow> (Inl e, S, D)
         | Inr vaultFile \<Rightarrow>
             (case decryptVault P vaultFile masterPassword of
                Inl e \<Rightarrow> (Inl e, S, D)
              | Inr (d, k, params) \<Rightarrow>
                  (let S' = S\<lparr>session := Some \<lparr>token = env_uuid E, key = k,
                                session_kdf = params, vault = d,
                                lastActivity = env_now E\<rparr>\<rparr>;
                       S'' = scheduleLock E S'
                   in case entries_of d of
                        Inl e \<Rightarrow> (Inl e, S'', D)
                      | Inr es \<Rightarrow>
                          (Inr \<lparr>created = False, result_token = env_uuid E,
                                result_entries = length es\<rparr>, S'', D)))))"

definition persist ::
  "platform \<Rightarrow> env \<Rightarrow> SessionData \<Rightarrow> disk_content option
     \<Rightarrow> (error + unit) \<times> disk_content option" where
  "persist P E s D =
     (case encryptVaultWithKey P (env_iv E) (vault s) (key s) (session_kdf s) of
        Inl e \<Rightarrow> (Inl e, D)
      | Inr vaultFile \<Rightarrow> writeVaultFile E D vaultFile)"


subsection \<open>Reading entries\<close>

text \<open>
  \<open>Array.prototype.sort\<close> with a comparator is a stable sort: \<open>sort_by\<close> inserts each element
  before the first element that does not compare smaller.
\<close>

fun insert_by :: "('a \<Rightarrow> 'a \<Rightarrow> int) \<Rightarrow> 'a \<Rightarrow> 'a list \<Rightarrow> 'a list" where
  "insert_by cmp x [] = [x]"
| "insert_by cmp x (y # ys) = (if cmp x y \<le> 0 then x # y # ys else y # insert_by cmp x ys)"

definition sort_by :: "('a \<Rightarrow> 'a \<Rightarrow> int) \<Rightarrow> 'a list \<Rightarrow> 'a list" where
  "sort_by cmp xs = foldr (insert_by cmp) xs []"

definition getEntries ::
  "platform \<Rightarrow> env \<Rightarrow> VaultService \<Rightarrow> string \<Rightarrow> string option
     \<Rightarrow> (error + VaultEntry list) \<times> VaultService" where
  "getEntries P E S tok query =
     (case requireSession E S tok of
        (Inl e, S') \<Rightarrow> (Inl e, S')
      | (Inr s, S') \<Rightarrow>
          (let normalizedQuery = map_option (\<lambda>q. toLowerCase P (trim P q)) query in
           case entries_of (vault s) of
             Inl e \<Rightarrow> (Inl e, S')
           | Inr es \<Rightarrow>
               (let found = filter (\<lambda>entry.
                      (case normalizedQuery of
                         None \<Rightarrow> True
                       | Some q \<Rightarrow>
                           q = [] \<or> sublist q (toLowerCase P (site entry))
                           \<or> sublist q (toLowerCase P (username entry))
                           \<or> sublist q (toLowerCase P (domain entry)))) es
                in (Inr (sort_by (\<lambda>a b. localeCompare P (site a) (site b)) found), S'))))"

definition getEntriesForDomain ::
  "platform \<Rightarrow> env \<Rightarrow> VaultService \<Rightarrow> string \<Rightarrow> string
     \<Rightarrow> (error + VaultEntry list) \<times> VaultService" where
  "getEntriesForDomain P E S tok dname =
     (case requireSession E S tok of
        (Inl e, S') \<Rightarrow> (Inl e, S')
      | (Inr s, S') \<Rightarrow>
          (let target = normalizeDomain P dname in
           case entries_of (vault s) of
             Inl e \<Rightarrow> (Inl e, S')
           | Inr es \<Rightarrow>
               (Inr (filter (\<lambda>entry. domainMatches P (domain entry) target) es), S')))"

subsection \<open>Changing entries\<close>

text \<open>
  The payload of \<open>addEntry\<close> has the five fields a caller gives; the payload of \<open>updateEntry\<close>
  has each of them or not. The session object is shared with the service, so a change of
  its entries is a change of the state of the service, kept when \<open>persist\<close> throws. On vault
  data without entries each operation throws the TypeError before it changes anything.
\<close>

record EntryPayload =
  p_site :: string
  p_domain :: string
  p_username :: string
  p_password :: string
  p_notes :: "string option"

record EntryPatch =
  u_site :: "string option"
  u_domain :: "string option"
  u_username :: "string option"
  u_password :: "string option"
  u_notes :: "string option"

definition set_entries :: "VaultService \<Rightarrow> SessionData \<Rightarrow> VaultEntry list \<Rightarrow> SessionData \<times> VaultService" where
  "set_entries S s es =
     (let s' = s\<lparr>vault := Vault es\<rparr> in (s', S\<lparr>session := Some s'\<rparr>))"

definition addEntry ::
  "platform \<Rightarrow> env \<Rightarrow> VaultService \<Rightarrow> disk_content option \<Rightarrow> string \<Rightarrow> EntryPayload
     \<Rightarrow> (error + VaultEntry) \<times> VaultService \<times> disk_content option" where
  "addEntry P E S D tok payload =
     (case requireSession E S tok of
        (Inl e, S') \<Rightarrow> (Inl e, S', D)
      | (Inr s, S') \<Rightarrow>
          (let entry = \<lparr>entry_id = env_uuid E, site = p_site payload,
                        domain = normalizeDomain P (p_domain payload),
                        username = p_username payload, password = p_password payload,
                        entry_notes = p_notes payload,
                        createdAt = env_iso E, updatedAt = env_iso E\<rparr>
           in case entries_of (vault s) of
                Inl e \<Rightarrow> (Inl e, S', D)
              | Inr es \<Rightarrow>
                  (let (s', S'') = set_entries S' s (es @ [entry])
                   in case persist P E s' D of
                        (Inl e, D') \<Rightarrow> (Inl e, S'', D')
                      | (Inr u, D') \<Rightarrow> (Inr entry, S'', D'))))"

fun findIndex :: "('a \<Rightarrow> bool) \<Rightarrow> 'a list \<Rightarrow> nat option" where
  "findIndex f [] = None"
| "findIndex f (x # xs) = (if f x then Some 0 else map_option Suc (findIndex f xs))"

definition apply_patch :: "platform \<Rightarrow> env \<Rightarrow> VaultEntry \<Rightarrow> EntryPatch \<Rightarrow> VaultEntry" where
  "apply_patch P E existing payload =
     existing\<lparr>
       site := (case u_site payload of Some x \<Rightarrow> x | None \<Rightarrow> site existing),
       username := (case u_username payload of Some x \<Rightarrow> x | None \<Rightarrow> username existing),
       password := (case u_password payload of Some x \<Rightarrow> x | None \<Rightarrow> password existing),
       entry_notes := (case u_notes payload of Some x \<Rightarrow> Some x | None \<Rightarrow> entry_notes existing),
       domain := (case u_domain payload of
                    Some d \<Rightarrow> if d \<noteq> [] then normalizeDomain P d else domain existing
                  | None \<Rightarrow> domain existing),
       updatedAt := env_iso E\<rparr>"

definition updateEntry ::
  "platform \<Rightarrow> env \<Rightarrow> VaultService \<Rightarrow> disk_content option \<Rightarrow> string \<Rightarrow> string \<Rightarrow> EntryPatch
     \<Rightarrow> (error + VaultEntry) \<times> VaultService \<times> disk_content option" where
  "updateEntry P E S D tok ident payload =
     (case requireSession E S tok of
        (Inl e, S') \<Rightarrow> (Inl e, S', D)
      | (Inr s, S') \<Rightarrow>
          (case entries_of (vault s) of
             Inl e \<Rightarrow> (Inl e, S', D)
           | Inr es \<Rightarrow>
               (case findIndex (\<lambda>e. entry_id e = ident) es of
                  None \<Rightarrow> (Inl NOT_FOUND, S', D)
                | Some idx \<Rightarrow>
                    (let existing = es ! idx;
                         updated = apply_patch P E existing payload;
                         (s', S'') = set_entries S' s (es[idx := updated])
                     in case persist P E s' D of
                          (Inl e, D') \<Rightarrow> (Inl e, S'', D')
                        | (Inr u, D') \<Rightarrow> (Inr updated, S'', D')))))"

definition deleteEntry ::
  "platform \<Rightarrow> env \<Rightarrow> VaultService \<Rightarrow> disk_content option \<Rightarrow> string \<Rightarrow> string
     \<Rightarrow> (error + unit) \<times> VaultService \<times> disk_content option" where
  "deleteEntry P E S D tok ident =
     (case requireSession E S tok of
        (Inl e, S') \<Rightarrow> (Inl e, S', D)
      | (Inr s, S') \<Rightarrow>
          (case entries_of (vault s) of
             Inl e \<Rightarrow> (Inl e, S', D)
           | Inr es \<Rightarrow>
               (let before = length es;
                    remaining = filter (\<lambda>e. entry_id e \<noteq> ident) es;
                    (s', S'') = set_entries S' s remaining
                in if length remaining = before then (Inl NOT_FOUND, S'', D)
                   else (case persist P E s' D of (r, D') \<Rightarrow> (r, S'', D')))))"


section \<open>The rate limiter (server/src/middleware/rateLimiter.ts)\<close>

text \<open>
  The middleware either calls \<open>next()\<close> or answers 429 with a \<open>retryAfter\<close> in seconds. The
  time \<open>Date.now()\<close> is an argument. \<open>Math.ceil(x / 1000)\<close> on an integer \<open>x\<close> is
  \<open>ceil_div x 1000\<close>. A \<open>blockedUntil\<close> that is absent or 0 is falsy.
\<close>

record RateLimitEntry =
  count :: int
  resetAt :: int
  blockedUntil :: "int option"

record RateLimiter =
  attempts :: "string \<Rightarrow> RateLimitEntry option"
  windowMs :: int
  maxAttempts :: int
  blockDurationMs :: int

record request =
  req_ip :: "string option"
  req_remoteAddress :: "string option"

datatype response = Next | TooManyRequests int

definition new_RateLimiter :: "int \<Rightarrow> int \<Rightarrow> int \<Rightarrow> RateLimiter" where
  "new_RateLimiter w m b =
     \<lparr>attempts = (\<lambda>k. None), windowMs = w, maxAttempts = m, blockDurationMs = b\<rparr>"

definition ceil_div :: "int \<Rightarrow> int \<Rightarrow> int" where
  "ceil_div x d = - ((- x) div d)"

text \<open>\<open>x || y\<close> on an optional string \<open>x\<close>: absent and empty are falsy.\<close>

definition or_else :: "string option \<Rightarrow> string \<Rightarrow> string" where
  "or_else x y = (case x of None \<Rightarrow> y | Some a \<Rightarrow> if a = [] then y else a)"

definition getClientKey :: "request \<Rightarrow> string" where
  "getClientKey req = or_else (req_ip req) (or_else (req_remoteAddress req) ''unknown'')"

definition blocked_until :: "RateLimitEntry option \<Rightarrow> int \<Rightarrow> int option" where
  "blocked_until entry t =
     (case entry of
        None \<Rightarrow> None
      | Some e \<Rightarrow>
          (case blockedUntil e of
             None \<Rightarrow> None
           | Some b \<Rightarrow> if b \<noteq> 0 \<and> b > t then Some b else None))"

definition middleware :: "RateLimiter \<Rightarrow> request \<Rightarrow> int \<Rightarrow> response \<times> RateLimiter" where
  "middleware R req t =
     (let k = getClientKey req; entry = attempts R k in
      case blocked_until entry t of
        Some b \<Rightarrow> (TooManyRequests (ceil_div (b - t) 1000), R)
      | None \<Rightarrow>
          (case (case entry of None \<Rightarrow> None | Some e \<Rightarrow> if resetAt e < t then None else Some e) of
             None \<Rightarrow>
               (Next, R\<lparr>attempts := (attempts R)(k \<mapsto>
                          \<lparr>count = 1, resetAt = t + windowMs R, blockedUntil = None\<rparr>)\<rparr>)
           | Some e \<Rightarrow>
               (let e1 = e\<lparr>count := count e + 1\<rparr> in
                if count e1 > maxAttempts R then
                  (TooManyRequests (ceil_div (blockDurationMs R) 1000),
                   R\<lparr>attempts := (attempts R)(k \<mapsto>
                       e1\<lparr>blockedUntil := Some (t + blockDurationMs R)\<rparr>)\<rparr>)
                else (Next, R\<lparr>attempts := (attempts R)(k \<mapsto> e1)\<rparr>))))"

definition resetClient :: "RateLimiter \<Rightarrow> request \<Rightarrow> RateLimiter" where
  "resetClient R req = R\<lparr>attempts := (attempts R)(getClientKey req := None)\<rparr>"

definition cleanup :: "RateLimiter \<Rightarrow> int \<Rightarrow> RateLimiter" where
  "cleanup R t =
     R\<lparr>attempts := (\<lambda>k. case attempts R k of
          None \<Rightarrow> None
        | Some e \<Rightarrow>
            if resetAt e < t
               \<and> (case blockedUntil e of None \<Rightarrow> True | Some b \<Rightarrow> b = 0 \<or> b < t)
            then None else Some e)\<rparr>"

text \<open>
  A run of requests of one client: the times of the requests, in the order they arrive,
  give the responses and the state of the limiter after the last one.
\<close>

fun requests :: "RateLimiter \<Rightarrow> request \<Rightarrow> int list \<Rightarrow> response list \<times> RateLimiter" where
  "requests R req [] = ([], R)"
| "requests R req (t # ts) =
     (case middleware R req t of
        (resp, R') \<Rightarrow> (case requests R' req ts of (resps, R'') \<Rightarrow> (resp # resps, R'')))"


section \<open>A small platform for evaluation\<close>

text \<open>
  The theorems below hold for every platform. To evaluate them at concrete inputs, this
  section gives one small platform: a key derivation that joins salt and password and
  refuses cost parameters beyond the memory limit, a cipher whose tag binds key, nonce and
  plaintext, a MAC that binds key and message, a length-prefixed encoding in the place of
  JSON (with the texts \<open>{}\<close> and \<open>null\<close> for vault data without entries), a host name parser
  that cuts the scheme and the path and rejects a host with a space, a comparison of
  strings by their length, and \<open>toLowerCase\<close> and \<open>trim\<close> on ASCII letters and ASCII white
  space.
\<close>

definition lower_char :: "char \<Rightarrow> char" where
  "lower_char c =
     (if 65 \<le> (of_char c :: nat) \<and> (of_char c :: nat) \<le> 90
      then char_of ((of_char c :: nat) + 32) else c)"

definition sample_toLowerCase :: "string \<Rightarrow> string" where
  "sample_toLowerCase s = map lower_char s"

definition is_space :: "char \<Rightarrow> bool" where
  "is_space c = ((of_char c :: nat) = 32 \<or> (9 \<le> (of_char c :: nat) \<and> (of_char c :: nat) \<le> 13))"

definition sample_trim :: "string \<Rightarrow> string" where
  "sample_trim s = rev (dropWhile is_space (rev (dropWhile is_space s)))"

definition sample_scrypt ::
  "string \<Rightarrow> string \<Rightarrow> int \<Rightarrow> int \<Rightarrow> int \<Rightarrow> int \<Rightarrow> int \<Rightarrow> bytes option" where
  "sample_scrypt pw s len n r p maxmem =
     (if 128 * n * r * p > maxmem then None else Some (s @ ''$'' @ pw))"

definition sample_tag :: "bytes \<Rightarrow> string \<Rightarrow> string \<Rightarrow> string" where
  "sample_tag k i m = k @ ''|'' @ i @ ''|'' @ m"

definition sample_seal :: "bytes \<Rightarrow> string \<Rightarrow> string \<Rightarrow> (string \<times> string) option" where
  "sample_seal k i m = (if k = [] then None else Some (rev m, sample_tag k i m))"

definition sample_open :: "bytes \<Rightarrow> string \<Rightarrow> string \<Rightarrow> string \<Rightarrow> string option" where
  "sample_open k i d t = (if k \<noteq> [] \<and> t = sample_tag k i (rev d) then Some (rev d) else None)"

definition sample_hmac :: "bytes \<Rightarrow> string \<Rightarrow> string" where
  "sample_hmac k m = ''mac('' @ k @ '','' @ m @ '')''"

definition enc_str :: "string \<Rightarrow> string" where
  "enc_str s = replicate (length s) (CHR ''+'') @ CHR ''.'' # s"

definition dec_str :: "string \<Rightarrow> (string \<times> string) option" where
  "dec_str xs =
     (let n = length (takeWhile (\<lambda>c. c = CHR ''+'') xs) in
      case drop n xs of
        [] \<Rightarrow> None
      | c # r \<Rightarrow> if c = CHR ''.'' \<and> n \<le> length r then Some (take n r, drop n r) else None)"

definition enc_int :: "int \<Rightarrow> string" where
  "enc_int n =
     (if n < 0 then CHR ''-'' else CHR ''+'')
     # map char_of [\<bar>n\<bar>, \<bar>n\<bar> div 256, \<bar>n\<bar> div 65536, \<bar>n\<bar> div 16777216]"

definition sample_header :: "int \<Rightarrow> KdfParams \<Rightarrow> CipherPayload \<Rightarrow> string" where
  "sample_header ver params payload =
     enc_int ver @ enc_str (salt params) @ enc_int (kdf_N params) @ enc_int (kdf_r params)
     @ enc_int (kdf_p params) @ enc_int (keyLength params)
     @ enc_str (iv payload) @ enc_str (data payload) @ enc_str (authTag payload)"

definition enc_entry :: "VaultEntry \<Rightarrow> string" where
  "enc_entry e =
     enc_str (entry_id e) @ enc_str (site e) @ enc_str (domain e) @ enc_str (username e)
     @ enc_str (password e)
     @ (case entry_notes e of None \<Rightarrow> ''n'' | Some x \<Rightarrow> ''y'' @ enc_str x)
     @ enc_str (createdAt e) @ enc_str (updatedAt e)"

definition sample_json_data :: "VaultData \<Rightarrow> string" where
  "sample_json_data d =
     (case d of
        Vault es \<Rightarrow> concat (map (\<lambda>e. CHR ''E'' # enc_entry e) es)
      | Unshaped t \<Rightarrow> t)"

definition dec_notes :: "string \<Rightarrow> (string option \<times> string) option" where
  "dec_notes xs =
     (case xs of
        [] \<Rightarrow> None
      | c # r \<Rightarrow>
          if c = CHR ''n'' then Some (None, r)
          else if c = CHR ''y'' then map_option (\<lambda>(x, r'). (Some x, r')) (dec_str r)
          else None)"

definition dec_entry :: "string \<Rightarrow> (VaultEntry \<times> string) option" where
  "dec_entry xs =
     Option.bind (dec_str xs) (\<lambda>(a, r1).
     Option.bind (dec_str r1) (\<lambda>(b, r2).
     Option.bind (dec_str r2) (\<lambda>(c, r3).
     Option.bind (dec_str r3) (\<lambda>(d, r4).
     Option.bind (dec_str r4) (\<lambda>(e, r5).
     Option.bind (dec_notes r5) (\<lambda>(f, r6).
     Option.bind (dec_str r6) (\<lambda>(g, r7).
     Option.bind (dec_str r7) (\<lambda>(h, r8).
       Some (\<lparr>entry_id = a, site = b, domain = c, username = d, password = e,
              entry_notes = f, createdAt = g, updatedAt = h\<rparr>, r8)))))))))"

fun dec_entries :: "nat \<Rightarrow> string \<Rightarrow> VaultEntry list option" where
  "dec_entries fuel [] = Some []"
| "dec_entries 0 (c # r) = None"
| "dec_entries (Suc fuel) (c # r) =
     (if c = CHR ''E'' then
        Option.bind (dec_entry r) (\<lambda>(e, r').
        map_option (\<lambda>es. e # es) (dec_entries fuel r'))
      else None)"

definition sample_json_parse :: "string \<Rightarrow> VaultData option" where
  "sample_json_parse s =
     (if s = ''{}'' \<or> s = ''null'' then Some (Unshaped s)
      else map_option Vault (dec_entries (length s) s))"

definition sample_hostname :: "string \<Rightarrow> string option" where
  "sample_hostname s =
     (let host = takeWhile (\<lambda>c. c \<notin> set ''/?#'') (after_scheme s) in
      if host = [] \<or> CHR '' '' \<in> set host then None else Some (sample_toLowerCase host))"

definition sample_compare :: "string \<Rightarrow> string \<Rightarrow> int" where
  "sample_compare a b = int (length a) - int (length b)"

definition sample_platform :: platform where
  "sample_platform =
     \<lparr>scrypt = sample_scrypt, aes_gcm_seal = sample_seal, aes_gcm_open = sample_open,
      hmac_sha256 = sample_hmac, json_header = sample_header,
      json_data = sample_json_data, json_parse = sample_json_parse,
      url_hostname = sample_hostname, localeCompare = sample_compare,
      toLowerCase = sample_toLowerCase, trim = sample_trim\<rparr>"

definition sample_entry :: VaultEntry where
  "sample_entry =
     \<lparr>entry_id = ''1'', site = ''Example'', domain = ''example.com'', username = ''alice'',
      password = ''secret'', entry_notes = None, createdAt = ''t0'', updatedAt = ''t0''\<rparr>"

definition sample_data :: VaultData where
  "sample_data = Vault [sample_entry]"

definition sample_env :: env where
  "sample_env =
     \<lparr>env_now = 1000, env_iso = ''t1'', env_uuid = ''tok-2'', env_salt = ''salt'',
      env_iv = ''nonce'', fs_access_ok = True, fs_read_ok = True, fs_write_fault = NoFault\<rparr>"

definition sample_key :: bytes where
  "sample_key = ''salt$master''"

definition sample_cipher :: CipherPayload where
  "sample_cipher =
     \<lparr>iv = ''nonce'', data = rev (sample_json_data sample_data),
      authTag = sample_tag sample_key ''nonce'' (sample_json_data sample_data)\<rparr>"

definition sample_file :: VaultFile where
  "sample_file =
     \<lparr>version = 2, kdf = generateKdfParams ''salt'', cipher = sample_cipher,
      hmac = Some (computeHMAC sample_platform 2 (generateKdfParams ''salt'')
                     sample_cipher sample_key)\<rparr>"



definition sample_session :: SessionData where
  "sample_session =
     \<lparr>token = ''tok-1'', key = sample_key, session_kdf = generateKdfParams ''salt'',
      vault = sample_data, lastActivity = 500\<rparr>"

definition sample_service :: VaultService where
  "sample_service = \<lparr>lockTimeoutMs = 600000, session = Some sample_session, lockTimer = Some 600500\<rparr>"

definition locked_service :: VaultService where
  "locked_service = \<lparr>lockTimeoutMs = 600000, session = None, lockTimer = None\<rparr>"


definition sample_request :: request where
  "sample_request = \<lparr>req_ip = Some ''127.0.0.1'', req_remoteAddress = None\<rparr>"

definition sample_limiter :: RateLimiter where
  "sample_limiter = new_RateLimiter 1000 3 2000"

definition blocked_limiter :: RateLimiter where
  "blocked_limiter =
     sample_limiter\<lparr>attempts := (\<lambda>k. None)(''127.0.0.1'' \<mapsto>
       \<lparr>count = 4, resetAt = 1000, blockedUntil = Some 2030\<rparr>)\<rparr>"


section \<open>What the theorems assume of the platform\<close>

text \<open>
  \<open>aead_inverts\<close>: the decipher, given the key and nonce of the cipher, opens what the
  cipher sealed. \<open>json_inverts\<close>: \<open>JSON.parse\<close> gives back the vault data that
  \<open>JSON.stringify\<close> has written. \<open>mac_separates\<close>: the MACs of two different cipher payloads
  under one key, with the same version and key derivation parameters, do not collide.
\<close>

definition aead_inverts :: "platform \<Rightarrow> bytes \<Rightarrow> string \<Rightarrow> string \<Rightarrow> bool" where
  "aead_inverts P k i m =
     (case aes_gcm_seal P k i m of
        None \<Rightarrow> True
      | Some (c, t) \<Rightarrow> aes_gcm_open P k i c t = Some m)"

definition json_inverts :: "platform \<Rightarrow> VaultData \<Rightarrow> bool" where
  "json_inverts P d = (json_parse P (json_data P d) = Some d)"

definition mac_separates ::
  "platform \<Rightarrow> bytes \<Rightarrow> int \<Rightarrow> KdfParams \<Rightarrow> CipherPayload \<Rightarrow> CipherPayload \<Rightarrow> bool" where
  "mac_separates P k ver params c c' =
     (c \<noteq> c' \<longrightarrow> computeHMAC P ver params c k \<noteq> computeHMAC P ver params c' k)"

text \<open>
  A write leaves the disk as it was or leaves a file of version 2 with its tag.
\<close>

definition current_format :: "VaultFile \<Rightarrow> bool" where
  "current_format f = (version f = 2 \<and> hmac f \<noteq> None)"

definition written_current :: "disk_content option \<Rightarrow> disk_content option \<Rightarrow> bool" where
  "written_current D D' =
     (D' = D \<or> (case D' of Some (Stored f) \<Rightarrow> current_format f | _ \<Rightarrow> False))"


section \<open>Facts about the small platform\<close>

lemma sample_platform_simps [simp]:
  "scrypt sample_platform = sample_scrypt"
  "aes_gcm_seal sample_platform = sample_seal"
  "aes_gcm_open sample_platform = sample_open"
  "hmac_sha256 sample_platform = sample_hmac"
  "json_header sample_platform = sample_header"
  "json_data sample_platform = sample_json_data"
  "json_parse sample_platform = sample_json_parse"
  "url_hostname sample_platform = sample_hostname"
  "localeCompare sample_platform = sample_compare"
  "toLowerCase sample_platform = sample_toLowerCase"
  "trim sample_platform = sample_trim"
  by (simp_all add: sample_platform_def)

lemma sample_json_roundtrip: "sample_json_parse (sample_json_data sample_data) = Some sample_data"
  by code_simp

lemma sample_json_inverts: "json_inverts sample_platform sample_data"
  by (simp add: json_inverts_def sample_json_roundtrip)

lemma sample_derive:
  "deriveKey sample_platform ''master'' (generateKdfParams ''salt'') = Inr sample_key"
  by (simp add: deriveKey_def generateKdfParams_def sample_scrypt_def sample_key_def)

lemma sample_derive_wrong:
  "deriveKey sample_platform ''wrong'' (generateKdfParams ''salt'') = Inr ''salt$wrong''"
  by (simp add: deriveKey_def generateKdfParams_def sample_scrypt_def)

lemma sample_seal_data:
  "encryptPayload sample_platform ''nonce'' (json_data sample_platform sample_data) sample_key
     = Inr sample_cipher"
  by (simp add: encryptPayload_def sample_seal_def sample_cipher_def sample_key_def)

lemma sample_encrypt:
  "encryptVault sample_platform ''salt'' ''nonce'' sample_data ''master''
     = Inr (sample_file, sample_key)"
  using sample_seal_data
  by (simp add: encryptVault_def Let_def sample_derive encryptVaultWithKey_def sample_file_def)

lemma sample_aead: "aead_inverts sample_platform k i m"
  by (simp add: aead_inverts_def sample_seal_def sample_open_def)

lemma sample_mac_nonempty: "computeHMAC sample_platform ver params c k \<noteq> []"
  by (simp add: computeHMAC_def sample_hmac_def)


section \<open>Facts about the vault encryption\<close>

lemma encryptVaultWithKey_Inr:
  assumes "encryptVaultWithKey P i d k params = Inr v"
  obtains c t where "aes_gcm_seal P k i (json_data P d) = Some (c, t)"
    and "v = \<lparr>version = 2, kdf = params, cipher = \<lparr>iv = i, data = c, authTag = t\<rparr>,
              hmac = Some (computeHMAC P 2 params \<lparr>iv = i, data = c, authTag = t\<rparr> k)\<rparr>"
  using assms
  by (auto simp: encryptVaultWithKey_def encryptPayload_def split: option.splits sum.splits)

lemma encryptVault_Inr:
  assumes "encryptVault P s i d pw = Inr (v, k)"
  shows "deriveKey P pw (generateKdfParams s) = Inr k"
    and "encryptVaultWithKey P i d k (generateKdfParams s) = Inr v"
  using assms by (auto simp: encryptVault_def Let_def split: sum.splits)

lemma encryptVaultWithKey_current:
  "encryptVaultWithKey P i d k params = Inr v \<Longrightarrow> current_format v"
  by (erule encryptVaultWithKey_Inr) (simp add: current_format_def)

lemma opened_after_seal:
  assumes "encryptPayload P i m k = Inr c" and "aead_inverts P k i m"
  shows "decryptPayload P c k = Inr m"
  using assms
  by (auto simp: encryptPayload_def decryptPayload_def aead_inverts_def split: option.splits)


section \<open>Round trip\<close>

text \<open>
  Claim C3. For every vault data and every password, decrypting the file that
  \<open>encryptVault\<close> produced with the same password returns exactly the original data
  (with the key and the key derivation parameters of the file). The platform is assumed to
  open what it sealed under this key and nonce, to parse back the JSON of this data, and to
  give a MAC digest that is not the empty string.
\<close>

theorem roundtrip:
  assumes enc: "encryptVault P rnd_salt rnd_iv d masterPassword = Inr (v, k)"
    and aead: "aead_inverts P k rnd_iv (json_data P d)"
    and json: "json_inverts P d"
    and mac: "computeHMAC P 2 (kdf v) (cipher v) k \<noteq> []"
  shows "decryptVault P v masterPassword = Inr (d, k, kdf v)"
proof -
  from encryptVault_Inr [OF enc]
  have dk: "deriveKey P masterPassword (generateKdfParams rnd_salt) = Inr k"
    and ek: "encryptVaultWithKey P rnd_iv d k (generateKdfParams rnd_salt) = Inr v"
    by simp_all
  from ek obtain c t where seal: "aes_gcm_seal P k rnd_iv (json_data P d) = Some (c, t)"
    and v: "v = \<lparr>version = 2, kdf = generateKdfParams rnd_salt,
                 cipher = \<lparr>iv = rnd_iv, data = c, authTag = t\<rparr>,
                 hmac = Some (computeHMAC P 2 (generateKdfParams rnd_salt)
                          \<lparr>iv = rnd_iv, data = c, authTag = t\<rparr> k)\<rparr>"
    by (rule encryptVaultWithKey_Inr)
  from aead seal have op: "aes_gcm_open P k rnd_iv c t = Some (json_data P d)"
    by (simp add: aead_inverts_def)
  from mac v have ne: "\<not> hmac_absent v"
    by (simp add: hmac_absent_def)
  have "decryptVaultWithKey P v k = Inr d"
    using ne op json v
    by (simp add: decryptVaultWithKey_def decryptPayload_def json_inverts_def)
  with dk v show ?thesis
    by (simp add: decryptVault_def)
qed

theorem roundtrip_witness:
  "encryptVault sample_platform ''salt'' ''nonce'' sample_data ''master''
     = Inr (sample_file, sample_key)
   \<and> aead_inverts sample_platform sample_key ''nonce'' (json_data sample_platform sample_data)
   \<and> json_inverts sample_platform sample_data
   \<and> computeHMAC sample_platform 2 (kdf sample_file) (cipher sample_file) sample_key \<noteq> []
   \<and> decryptVault sample_platform sample_file ''master''
       = Inr (sample_data, sample_key, kdf sample_file)"
  using roundtrip [OF sample_encrypt sample_aead sample_json_inverts sample_mac_nonempty]
    sample_encrypt sample_aead sample_json_inverts sample_mac_nonempty
  by simp


section \<open>Version 1 files\<close>

text \<open>
  Claim C9. For every version 1 vault file with no integrity tag, whose cipher payload is
  the vault data sealed under the key derived from the password, decryption with that
  password succeeds and returns the vault data: the integrity check is skipped.
\<close>

theorem version1_decrypts:
  assumes ver: "version v = 1"
    and tag: "hmac v = None"
    and dk: "deriveKey P masterPassword (kdf v) = Inr k"
    and sealed: "encryptPayload P rnd_iv (json_data P d) k = Inr (cipher v)"
    and aead: "aead_inverts P k rnd_iv (json_data P d)"
    and json: "json_inverts P d"
  shows "decryptVault P v masterPassword = Inr (d, k, kdf v)"
proof -
  have "decryptPayload P (cipher v) k = Inr (json_data P d)"
    using sealed aead by (rule opened_after_seal)
  then have "decryptVaultWithKey P v k = Inr d"
    using ver json by (simp add: decryptVaultWithKey_def json_inverts_def)
  with dk show ?thesis
    by (simp add: decryptVault_def)
qed

theorem version1_decrypts_witness:
  "version (sample_file\<lparr>version := 1, hmac := None\<rparr>) = 1
   \<and> hmac (sample_file\<lparr>version := 1, hmac := None\<rparr>) = None
   \<and> deriveKey sample_platform ''master'' (kdf (sample_file\<lparr>version := 1, hmac := None\<rparr>))
       = Inr sample_key
   \<and> encryptPayload sample_platform ''nonce'' (json_data sample_platform sample_data) sample_key
       = Inr (cipher (sample_file\<lparr>version := 1, hmac := None\<rparr>))
   \<and> aead_inverts sample_platform sample_key ''nonce'' (json_data sample_platform sample_data)
   \<and> json_inverts sample_platform sample_data
   \<and> decryptVault sample_platform (sample_file\<lparr>version := 1, hmac := None\<rparr>) ''master''
       = Inr (sample_data, sample_key, kdf (sample_file\<lparr>version := 1, hmac := None\<rparr>))"
proof -
  let ?v = "sample_file\<lparr>version := 1, hmac := None\<rparr>"
  have 1: "version ?v = 1" and 2: "hmac ?v = None" by simp_all
  have 3: "deriveKey sample_platform ''master'' (kdf ?v) = Inr sample_key"
    using sample_derive by (simp add: sample_file_def)
  have 4: "encryptPayload sample_platform ''nonce'' (json_data sample_platform sample_data)
             sample_key = Inr (cipher ?v)"
    using sample_seal_data by (simp add: sample_file_def)
  show ?thesis
    using version1_decrypts [OF 1 2 3 4 sample_aead sample_json_inverts]
      1 2 3 4 sample_aead sample_json_inverts
    by simp
qed


section \<open>Tamper detection\<close>

text \<open>
  Claim C2. For every vault file of version 2 or more and every key, with \<open>HMAC_MISSING\<close>
  and \<open>HMAC_TAMPERED\<close> the two integrity errors:
  \<^item> a missing integrity tag (absent or empty) fails with \<open>HMAC_MISSING\<close>;
  \<^item> when the tag is the MAC of the file under the key, altering the ciphertext
    \<open>cipher.data\<close> fails with \<open>HMAC_TAMPERED\<close>, provided the MAC does not collide on the
    original and the altered payload;
  \<^item> the tag is verified before the cipher is opened: when the tag is not the MAC of the
    file, the result is one integrity error whatever the decipher and the JSON parser
    would do;
  \<^item> the plaintext is opened and parsed only after verification: a successful decryption
    had its tag equal to the MAC, and its data is the parsed plaintext of the cipher.
\<close>

theorem tamper_detection:
  assumes ver: "2 \<le> version v"
  shows "is_IntegrityError HMAC_MISSING \<and> is_IntegrityError HMAC_TAMPERED
    \<and> (hmac_absent v \<longrightarrow> decryptVaultWithKey P v k = Inl HMAC_MISSING)
    \<and> (\<forall>altered.
          \<not> hmac_absent v
          \<and> hmac v = Some (computeHMAC P (version v) (kdf v) (cipher v) k)
          \<and> altered \<noteq> data (cipher v)
          \<and> mac_separates P k (version v) (kdf v) (cipher v) ((cipher v)\<lparr>data := altered\<rparr>)
          \<longrightarrow> decryptVaultWithKey P (v\<lparr>cipher := (cipher v)\<lparr>data := altered\<rparr>\<rparr>) k
                = Inl HMAC_TAMPERED)
    \<and> (hmac v \<noteq> Some (computeHMAC P (version v) (kdf v) (cipher v) k)
         \<longrightarrow> (\<exists>e. is_IntegrityError e
                \<and> (\<forall>f g. decryptVaultWithKey (P\<lparr>aes_gcm_open := f, json_parse := g\<rparr>) v k = Inl e)))
    \<and> (\<forall>d. decryptVaultWithKey P v k = Inr d
         \<longrightarrow> hmac v = Some (computeHMAC P (version v) (kdf v) (cipher v) k)
             \<and> (\<exists>m. decryptPayload P (cipher v) k = Inr m \<and> json_parse P m = Some d))"
proof (intro conjI allI impI)
  show "is_IntegrityError HMAC_MISSING" and "is_IntegrityError HMAC_TAMPERED"
    by (simp_all add: is_IntegrityError_def)
next
  assume "hmac_absent v"
  with ver show "decryptVaultWithKey P v k = Inl HMAC_MISSING"
    by (simp add: decryptVaultWithKey_def)
next
  fix altered
  assume a: "\<not> hmac_absent v
          \<and> hmac v = Some (computeHMAC P (version v) (kdf v) (cipher v) k)
          \<and> altered \<noteq> data (cipher v)
          \<and> mac_separates P k (version v) (kdf v) (cipher v) ((cipher v)\<lparr>data := altered\<rparr>)"
  let ?c = "(cipher v)\<lparr>data := altered\<rparr>"
  from a have "cipher v \<noteq> ?c"
    by (metis CipherPayload.select_convs(2) CipherPayload.surjective CipherPayload.update_convs(2))
  with a have "computeHMAC P (version v) (kdf v) (cipher v) k
                 \<noteq> computeHMAC P (version v) (kdf v) ?c k"
    by (simp add: mac_separates_def)
  with a ver show "decryptVaultWithKey P (v\<lparr>cipher := ?c\<rparr>) k = Inl HMAC_TAMPERED"
    by (auto simp: decryptVaultWithKey_def hmac_absent_def)
next
  assume n: "hmac v \<noteq> Some (computeHMAC P (version v) (kdf v) (cipher v) k)"
  show "\<exists>e. is_IntegrityError e
          \<and> (\<forall>f g. decryptVaultWithKey (P\<lparr>aes_gcm_open := f, json_parse := g\<rparr>) v k = Inl e)"
  proof (cases "hmac_absent v")
    case True
    with ver have "\<forall>f g. decryptVaultWithKey (P\<lparr>aes_gcm_open := f, json_parse := g\<rparr>) v k
                     = Inl HMAC_MISSING"
      by (simp add: decryptVaultWithKey_def)
    then show ?thesis
      by (auto simp: is_IntegrityError_def)
  next
    case False
    with ver n have "\<forall>f g. decryptVaultWithKey (P\<lparr>aes_gcm_open := f, json_parse := g\<rparr>) v k
                     = Inl HMAC_TAMPERED"
      by (simp add: decryptVaultWithKey_def computeHMAC_def)
    then show ?thesis
      by (auto simp: is_IntegrityError_def)
  qed
next
  fix d
  assume "decryptVaultWithKey P v k = Inr d"
  with ver show "hmac v = Some (computeHMAC P (version v) (kdf v) (cipher v) k)"
    by (simp add: decryptVaultWithKey_def split: if_splits)
next
  fix d
  assume "decryptVaultWithKey P v k = Inr d"
  with ver show "\<exists>m. decryptPayload P (cipher v) k = Inr m \<and> json_parse P m = Some d"
    by (auto simp: decryptVaultWithKey_def split: if_splits sum.splits option.splits)
qed

theorem tamper_detection_witness:
  "2 \<le> version sample_file
   \<and> hmac_absent (sample_file\<lparr>hmac := None\<rparr>)
   \<and> decryptVaultWithKey sample_platform (sample_file\<lparr>hmac := None\<rparr>) sample_key
       = Inl HMAC_MISSING
   \<and> \<not> hmac_absent sample_file
   \<and> hmac sample_file = Some (computeHMAC sample_platform (version sample_file)
         (kdf sample_file) (cipher sample_file) sample_key)
   \<and> ''X'' \<noteq> data (cipher sample_file)
   \<and> mac_separates sample_platform sample_key (version sample_file) (kdf sample_file)
         (cipher sample_file) ((cipher sample_file)\<lparr>data := ''X''\<rparr>)
   \<and> decryptVaultWithKey sample_platform
         (sample_file\<lparr>cipher := (cipher sample_file)\<lparr>data := ''X''\<rparr>\<rparr>) sample_key
       = Inl HMAC_TAMPERED
   \<and> hmac (sample_file\<lparr>hmac := Some ''forged''\<rparr>)
       \<noteq> Some (computeHMAC sample_platform (version sample_file) (kdf sample_file)
            (cipher sample_file) sample_key)
   \<and> decryptVaultWithKey sample_platform (sample_file\<lparr>hmac := Some ''forged''\<rparr>) sample_key
       = Inl HMAC_TAMPERED
   \<and> decryptVaultWithKey sample_platform sample_file sample_key = Inr sample_data"
proof -
  have v: "2 \<le> version sample_file"
    by (simp add: sample_file_def)
  have v1: "2 \<le> version (sample_file\<lparr>hmac := None\<rparr>)"
    by (simp add: sample_file_def)
  have v2: "2 \<le> version (sample_file\<lparr>hmac := Some ''forged''\<rparr>)"
    by (simp add: sample_file_def)
  have absent: "hmac_absent (sample_file\<lparr>hmac := None\<rparr>)"
    by (simp add: hmac_absent_def)
  have present: "\<not> hmac_absent sample_file"
    using sample_mac_nonempty by (simp add: hmac_absent_def sample_file_def)
  have tag: "hmac sample_file = Some (computeHMAC sample_platform (version sample_file)
         (kdf sample_file) (cipher sample_file) sample_key)"
    by (simp add: sample_file_def)
  have alt: "''X'' \<noteq> data (cipher sample_file)"
    by (simp add: sample_file_def sample_cipher_def sample_json_data_def sample_data_def)
  have sep: "mac_separates sample_platform sample_key (version sample_file) (kdf sample_file)
         (cipher sample_file) ((cipher sample_file)\<lparr>data := ''X''\<rparr>)"
    by (simp add: mac_separates_def computeHMAC_def sample_hmac_def sample_header_def
        sample_file_def sample_cipher_def sample_json_data_def sample_data_def enc_str_def)
  have forged: "hmac (sample_file\<lparr>hmac := Some ''forged''\<rparr>)
       \<noteq> Some (computeHMAC sample_platform (version sample_file) (kdf sample_file)
            (cipher sample_file) sample_key)"
    by (simp add: computeHMAC_def sample_hmac_def)
  have ok: "decryptVaultWithKey sample_platform sample_file sample_key = Inr sample_data"
    using present opened_after_seal [OF sample_seal_data sample_aead] sample_json_roundtrip
    by (simp add: decryptVaultWithKey_def sample_file_def)
  have fg: "decryptVaultWithKey sample_platform (sample_file\<lparr>hmac := Some ''forged''\<rparr>)
      sample_key = Inl HMAC_TAMPERED"
    using forged v2 by (simp add: decryptVaultWithKey_def hmac_absent_def)
  from tamper_detection [OF v1, of sample_platform sample_key] absent
  have a: "decryptVaultWithKey sample_platform (sample_file\<lparr>hmac := None\<rparr>) sample_key
       = Inl HMAC_MISSING"
    by blast
  from tamper_detection [OF v, of sample_platform sample_key] present tag alt sep
  have b: "decryptVaultWithKey sample_platform
         (sample_file\<lparr>cipher := (cipher sample_file)\<lparr>data := ''X''\<rparr>\<rparr>) sample_key
       = Inl HMAC_TAMPERED"
    by blast
  from v absent a present tag alt sep b forged fg ok show ?thesis
    by blast
qed


section \<open>Wrong password\<close>

text \<open>
  Claim C1, as stated, fails: on the small platform the file that \<open>encryptVault\<close> made for
  the password \<open>master\<close>, decrypted with the password \<open>wrong\<close>, fails with the integrity
  error \<open>HMAC_TAMPERED\<close> and not with the authentication error of the cipher, and \<open>unlock\<close>
  passes the same error on.
\<close>

theorem wrong_password_counterexample:
  "encryptVault sample_platform ''salt'' ''nonce'' sample_data ''master''
     = Inr (sample_file, sample_key)
   \<and> ''wrong'' \<noteq> ''master''
   \<and> decryptVault sample_platform sample_file ''wrong'' = Inl HMAC_TAMPERED
   \<and> \<not> is_AuthenticationError HMAC_TAMPERED
   \<and> unlock sample_platform sample_env locked_service (Some (Stored sample_file)) ''wrong'' False
       = (Inl HMAC_TAMPERED, locked_service, Some (Stored sample_file))"
proof -
  have ne: "hmac sample_file \<noteq> Some (computeHMAC sample_platform (version sample_file)
        (kdf sample_file) (cipher sample_file) ''salt$wrong'')"
    by (simp add: sample_file_def computeHMAC_def sample_hmac_def sample_key_def)
  have present: "\<not> hmac_absent sample_file"
    using sample_mac_nonempty by (simp add: hmac_absent_def sample_file_def)
  have v: "version sample_file = 2" and k: "kdf sample_file = generateKdfParams ''salt''"
    by (simp_all add: sample_file_def)
  have d: "decryptVault sample_platform sample_file ''wrong'' = Inl HMAC_TAMPERED"
    using ne present v
    by (simp add: decryptVault_def k sample_derive_wrong decryptVaultWithKey_def)
  have u: "unlock sample_platform sample_env locked_service (Some (Stored sample_file))
       ''wrong'' False = (Inl HMAC_TAMPERED, locked_service, Some (Stored sample_file))"
    by (simp add: unlock_def vaultExists_def readVaultFile_def sample_env_def d)
  show ?thesis
    using sample_encrypt d u by (simp add: is_AuthenticationError_def)
qed

text \<open>
  Claim C1, amended. For every vault data and password, decrypting the file that
  \<open>encryptVault\<close> produced with another password, whose key is derived and gives the file a
  MAC other than the stored tag, fails with the integrity error \<open>HMAC_TAMPERED\<close>, the error
  of a tampered file, and not with an authentication error: the tag is keyed with the
  derived key and checked before the cipher is opened. \<open>unlock\<close> passes this error on and
  leaves the service and the disk as they were.
\<close>

theorem wrong_password_integrity_error:
  assumes enc: "encryptVault P rnd_salt rnd_iv d masterPassword = Inr (v, k)"
    and dk: "deriveKey P wrongPassword (kdf v) = Inr k'"
    and mac: "computeHMAC P 2 (kdf v) (cipher v) k' \<noteq> computeHMAC P 2 (kdf v) (cipher v) k"
    and nonempty: "computeHMAC P 2 (kdf v) (cipher v) k \<noteq> []"
  shows "decryptVault P v wrongPassword = Inl HMAC_TAMPERED
    \<and> is_IntegrityError HMAC_TAMPERED \<and> \<not> is_AuthenticationError HMAC_TAMPERED
    \<and> (\<forall>E S createIfMissing.
          fs_access_ok E \<and> fs_read_ok E
          \<longrightarrow> unlock P E S (Some (Stored v)) wrongPassword createIfMissing
                = (Inl HMAC_TAMPERED, S, Some (Stored v)))"
proof -
  from encryptVault_Inr(2) [OF enc] obtain c t
    where v: "v = \<lparr>version = 2, kdf = generateKdfParams rnd_salt,
                 cipher = \<lparr>iv = rnd_iv, data = c, authTag = t\<rparr>,
                 hmac = Some (computeHMAC P 2 (generateKdfParams rnd_salt)
                          \<lparr>iv = rnd_iv, data = c, authTag = t\<rparr> k)\<rparr>"
    by (rule encryptVaultWithKey_Inr)
  from nonempty v have present: "\<not> hmac_absent v"
    by (simp add: hmac_absent_def)
  from v have tag: "hmac v = Some (computeHMAC P 2 (kdf v) (cipher v) k)" and ver: "version v = 2"
    by simp_all
  from mac tag have "hmac v \<noteq> Some (computeHMAC P (version v) (kdf v) (cipher v) k')"
    by (simp add: ver)
  with present ver have "decryptVaultWithKey P v k' = Inl HMAC_TAMPERED"
    by (simp add: decryptVaultWithKey_def)
  with dk have d: "decryptVault P v wrongPassword = Inl HMAC_TAMPERED"
    by (simp add: decryptVault_def)
  then show ?thesis
    by (simp add: is_IntegrityError_def is_AuthenticationError_def unlock_def vaultExists_def
        readVaultFile_def)
qed

theorem wrong_password_integrity_error_witness:
  "encryptVault sample_platform ''salt'' ''nonce'' sample_data ''master''
     = Inr (sample_file, sample_key)
   \<and> deriveKey sample_platform ''wrong'' (kdf sample_file) = Inr ''salt$wrong''
   \<and> computeHMAC sample_platform 2 (kdf sample_file) (cipher sample_file) ''salt$wrong''
       \<noteq> computeHMAC sample_platform 2 (kdf sample_file) (cipher sample_file) sample_key
   \<and> computeHMAC sample_platform 2 (kdf sample_file) (cipher sample_file) sample_key \<noteq> []
   \<and> fs_access_ok sample_env \<and> fs_read_ok sample_env
   \<and> decryptVault sample_platform sample_file ''wrong'' = Inl HMAC_TAMPERED
   \<and> unlock sample_platform sample_env sample_service (Some (Stored sample_file)) ''wrong'' True
       = (Inl HMAC_TAMPERED, sample_service, Some (Stored sample_file))"
proof -
  have dk: "deriveKey sample_platform ''wrong'' (kdf sample_file) = Inr ''salt$wrong''"
    using sample_derive_wrong by (simp add: sample_file_def)
  have mac: "computeHMAC sample_platform 2 (kdf sample_file) (cipher sample_file) ''salt$wrong''
       \<noteq> computeHMAC sample_platform 2 (kdf sample_file) (cipher sample_file) sample_key"
    by (simp add: computeHMAC_def sample_hmac_def sample_key_def)
  have env: "fs_access_ok sample_env \<and> fs_read_ok sample_env"
    by (simp add: sample_env_def)
  from wrong_password_integrity_error [OF sample_encrypt dk mac sample_mac_nonempty] env
  have "decryptVault sample_platform sample_file ''wrong'' = Inl HMAC_TAMPERED
     \<and> unlock sample_platform sample_env sample_service (Some (Stored sample_file)) ''wrong'' True
       = (Inl HMAC_TAMPERED, sample_service, Some (Stored sample_file))"
    by blast
  with sample_encrypt dk mac sample_mac_nonempty env show ?thesis
    by blast
qed


section \<open>Facts about the vault service\<close>

lemma requireSession_locked:
  "session S = None \<Longrightarrow> requireSession E S tok = (Inl LOCKED, S)"
  by (simp add: requireSession_def)

lemma requireSession_invalid:
  "session S = Some s \<Longrightarrow> token s \<noteq> tok \<Longrightarrow> requireSession E S tok = (Inl INVALID_SESSION, S)"
  by (simp add: requireSession_def)

lemma written_current_refl: "written_current D D"
  by (simp add: written_current_def)

lemma writeVaultFile_current:
  "current_format v \<Longrightarrow> written_current D (snd (writeVaultFile E D v))"
  by (cases "fs_write_fault E") (simp_all add: writeVaultFile_def written_current_def)

lemma persist_current: "written_current D (snd (persist P E s D))"
proof (cases "encryptVaultWithKey P (env_iv E) (vault s) (key s) (session_kdf s)")
  case (Inl e)
  then show ?thesis
    by (simp add: persist_def written_current_refl)
next
  case (Inr v)
  then have "current_format v"
    by (rule encryptVaultWithKey_current)
  with Inr show ?thesis
    by (simp add: persist_def writeVaultFile_current)
qed

lemma persist_currentD: "persist P E s D = (r, D') \<Longrightarrow> written_current D D'"
  using persist_current [of D P E s] by simp

lemma unlock_current: "written_current D (snd (snd (unlock P E S D pw c)))"
proof (cases "encryptVault P (env_salt E) (env_iv E) emptyVault pw")
  case (Inl e)
  then show ?thesis
    by (simp add: unlock_def Let_def written_current_refl split: sum.splits prod.splits)
next
  case (Inr r)
  obtain v k where r: "r = (v, k)"
    by (cases r)
  with Inr have "current_format v"
    using encryptVault_Inr(2) encryptVaultWithKey_current by blast
  then have "written_current D (snd (writeVaultFile E D v))"
    by (rule writeVaultFile_current)
  with Inr r show ?thesis
    by (auto simp: unlock_def Let_def written_current_refl split: sum.splits prod.splits)
qed

lemma addEntry_current: "written_current D (snd (snd (addEntry P E S D tok payload)))"
  by (auto simp: addEntry_def Let_def written_current_refl set_entries_def
      split: sum.splits prod.splits dest: persist_currentD)

lemma updateEntry_current: "written_current D (snd (snd (updateEntry P E S D tok ident patch)))"
  by (auto simp: updateEntry_def Let_def written_current_refl set_entries_def
      split: sum.splits prod.splits option.splits dest: persist_currentD)

lemma deleteEntry_current: "written_current D (snd (snd (deleteEntry P E S D tok ident)))"
  by (auto simp: deleteEntry_def Let_def written_current_refl set_entries_def
      split: sum.splits prod.splits dest: persist_currentD)


section \<open>Files written\<close>

text \<open>
  Claim C8. Every vault file that \<open>encryptVaultWithKey\<close> or \<open>encryptVault\<close> produces has
  version 2 and carries an integrity tag, and every operation that writes the disk
  (\<open>persist\<close>, \<open>unlock\<close>, \<open>addEntry\<close>, \<open>updateEntry\<close>, \<open>deleteEntry\<close>) leaves the disk as it was or
  leaves such a file: no version 1 file and no file without its tag is written.
\<close>

theorem written_files_current:
  "(\<forall>v. encryptVaultWithKey P rnd_iv d k params = Inr v
        \<longrightarrow> version v = 2 \<and> hmac v = Some (computeHMAC P 2 (kdf v) (cipher v) k))
   \<and> (\<forall>v k'. encryptVault P rnd_salt rnd_iv d masterPassword = Inr (v, k')
        \<longrightarrow> version v = 2 \<and> hmac v = Some (computeHMAC P 2 (kdf v) (cipher v) k'))
   \<and> written_current D (snd (persist P E s D))
   \<and> written_current D (snd (snd (unlock P E S D masterPassword createIfMissing)))
   \<and> written_current D (snd (snd (addEntry P E S D tok payload)))
   \<and> written_current D (snd (snd (updateEntry P E S D tok ident patch)))
   \<and> written_current D (snd (snd (deleteEntry P E S D tok ident)))"
proof (intro conjI allI impI)
  fix v
  assume "encryptVaultWithKey P rnd_iv d k params = Inr v"
  then show "version v = 2" and "hmac v = Some (computeHMAC P 2 (kdf v) (cipher v) k)"
    by (auto elim: encryptVaultWithKey_Inr)
next
  fix v k'
  assume "encryptVault P rnd_salt rnd_iv d masterPassword = Inr (v, k')"
  then have "encryptVaultWithKey P rnd_iv d k' (generateKdfParams rnd_salt) = Inr v"
    by (rule encryptVault_Inr)
  then show "version v = 2" and "hmac v = Some (computeHMAC P 2 (kdf v) (cipher v) k')"
    by (auto elim: encryptVaultWithKey_Inr)
qed (rule persist_current unlock_current addEntry_current updateEntry_current
      deleteEntry_current)+

theorem written_files_current_witness:
  "encryptVaultWithKey sample_platform ''nonce'' sample_data sample_key (generateKdfParams ''salt'')
     = Inr sample_file
   \<and> encryptVault sample_platform ''salt'' ''nonce'' sample_data ''master''
       = Inr (sample_file, sample_key)
   \<and> version sample_file = 2
   \<and> hmac sample_file
       = Some (computeHMAC sample_platform 2 (kdf sample_file) (cipher sample_file) sample_key)
   \<and> snd (snd (unlock sample_platform sample_env locked_service None ''master'' True)) \<noteq> None
   \<and> written_current None
        (snd (snd (unlock sample_platform sample_env locked_service None ''master'' True)))"
proof -
  have e: "encryptVaultWithKey sample_platform ''nonce'' sample_data sample_key
      (generateKdfParams ''salt'') = Inr sample_file"
    using sample_seal_data by (simp add: encryptVaultWithKey_def sample_file_def)
  have u: "snd (snd (unlock sample_platform sample_env locked_service None ''master'' True))
      \<noteq> None"
    by (simp add: unlock_def vaultExists_def sample_env_def encryptVault_def Let_def
        sample_derive encryptVaultWithKey_def encryptPayload_def sample_seal_def sample_key_def
        writeVaultFile_def)
  from written_files_current [of sample_platform "''nonce''" sample_data sample_key
      "generateKdfParams ''salt''" "''salt''" "''master''" None sample_env sample_session
      locked_service True] e sample_encrypt u
  show ?thesis
    by blast
qed


section \<open>Authenticated operations\<close>

text \<open>
  Claim C6. For each of \<open>getEntries\<close>, \<open>getEntriesForDomain\<close>, \<open>addEntry\<close>, \<open>updateEntry\<close>
  and \<open>deleteEntry\<close> and every presented token: without a session the operation fails with
  \<open>LOCKED\<close>, with a session whose token differs from the presented one it fails with
  \<open>INVALID_SESSION\<close>, and in both cases the service (its session, vault data and timer) and
  the disk are left as they were.
\<close>

theorem session_required:
  "(session S = None \<longrightarrow>
      getEntries P E S tok query = (Inl LOCKED, S)
      \<and> getEntriesForDomain P E S tok dname = (Inl LOCKED, S)
      \<and> addEntry P E S D tok payload = (Inl LOCKED, S, D)
      \<and> updateEntry P E S D tok ident patch = (Inl LOCKED, S, D)
      \<and> deleteEntry P E S D tok ident = (Inl LOCKED, S, D))
   \<and> (\<forall>s. session S = Some s \<and> token s \<noteq> tok \<longrightarrow>
      getEntries P E S tok query = (Inl INVALID_SESSION, S)
      \<and> getEntriesForDomain P E S tok dname = (Inl INVALID_SESSION, S)
      \<and> addEntry P E S D tok payload = (Inl INVALID_SESSION, S, D)
      \<and> updateEntry P E S D tok ident patch = (Inl INVALID_SESSION, S, D)
      \<and> deleteEntry P E S D tok ident = (Inl INVALID_SESSION, S, D))"
  by (simp add: getEntries_def getEntriesForDomain_def addEntry_def updateEntry_def
      deleteEntry_def requireSession_locked requireSession_invalid)

theorem session_required_witness:
  "session locked_service = None
   \<and> getEntries sample_platform sample_env locked_service ''tok-1'' None
       = (Inl LOCKED, locked_service)
   \<and> deleteEntry sample_platform sample_env locked_service (Some (Stored sample_file))
        ''tok-1'' ''1'' = (Inl LOCKED, locked_service, Some (Stored sample_file))
   \<and> session sample_service = Some sample_session \<and> token sample_session \<noteq> ''stale''
   \<and> getEntriesForDomain sample_platform sample_env sample_service ''stale'' ''example.com''
       = (Inl INVALID_SESSION, sample_service)
   \<and> deleteEntry sample_platform sample_env sample_service (Some (Stored sample_file))
        ''stale'' ''1'' = (Inl INVALID_SESSION, sample_service, Some (Stored sample_file))"
proof -
  have l: "session locked_service = None"
    by (simp add: locked_service_def)
  have s: "session sample_service = Some sample_session \<and> token sample_session \<noteq> ''stale''"
    by (simp add: sample_service_def sample_session_def)
  from session_required [of locked_service sample_platform sample_env "''tok-1''" None
      "''example.com''" "Some (Stored sample_file)" _ "''1''"] l
  have a: "getEntries sample_platform sample_env locked_service ''tok-1'' None
       = (Inl LOCKED, locked_service)
     \<and> deleteEntry sample_platform sample_env locked_service (Some (Stored sample_file))
        ''tok-1'' ''1'' = (Inl LOCKED, locked_service, Some (Stored sample_file))"
    by blast
  from session_required [of sample_service sample_platform sample_env "''stale''" None
      "''example.com''" "Some (Stored sample_file)" _ "''1''"] s
  have b: "getEntriesForDomain sample_platform sample_env sample_service ''stale''
        ''example.com'' = (Inl INVALID_SESSION, sample_service)
     \<and> deleteEntry sample_platform sample_env sample_service (Some (Stored sample_file))
        ''stale'' ''1'' = (Inl INVALID_SESSION, sample_service, Some (Stored sample_file))"
    by blast
  from l s a b show ?thesis
    by blast
qed


section \<open>Failed unlock\<close>






section \<open>Facts about the rate limiter\<close>

lemma middleware_opens_window:
  assumes "blocked_until (attempts R (getClientKey req)) t = None"
    and "attempts R (getClientKey req) = None
         \<or> (\<exists>e. attempts R (getClientKey req) = Some e \<and> resetAt e < t)"
  shows "middleware R req t =
    (Next, R\<lparr>attempts := (attempts R)(getClientKey req \<mapsto>
       \<lparr>count = 1, resetAt = t + windowMs R, blockedUntil = None\<rparr>)\<rparr>)"
  using assms by (auto simp: middleware_def Let_def)

lemma middleware_counts:
  assumes "attempts R (getClientKey req) = Some \<lparr>count = c, resetAt = r, blockedUntil = None\<rparr>"
    and "t \<le> r"
  shows "middleware R req t =
    (if c + 1 > maxAttempts R
     then (TooManyRequests (ceil_div (blockDurationMs R) 1000),
           R\<lparr>attempts := (attempts R)(getClientKey req \<mapsto>
              \<lparr>count = c + 1, resetAt = r, blockedUntil = Some (t + blockDurationMs R)\<rparr>)\<rparr>)
     else (Next, R\<lparr>attempts := (attempts R)(getClientKey req \<mapsto>
              \<lparr>count = c + 1, resetAt = r, blockedUntil = None\<rparr>)\<rparr>))"
  using assms by (simp add: middleware_def Let_def blocked_until_def)

lemma requests_within_limit:
  assumes "attempts R (getClientKey req) = Some \<lparr>count = c, resetAt = r, blockedUntil = None\<rparr>"
    and "\<forall>t \<in> set ts. t \<le> r"
    and "c' = c + int (length ts)"
    and "c' \<le> maxAttempts R"
  shows "requests R req ts =
    (replicate (length ts) Next,
     R\<lparr>attempts := (attempts R)(getClientKey req \<mapsto>
        \<lparr>count = c', resetAt = r, blockedUntil = None\<rparr>)\<rparr>)"
  using assms
proof (induction ts arbitrary: R c)
  case Nil
  then have "(attempts R)(getClientKey req \<mapsto> \<lparr>count = c', resetAt = r, blockedUntil = None\<rparr>)
      = attempts R"
    by (simp add: fun_upd_idem)
  then show ?case
    by simp
next
  case (Cons t ts)
  let ?R = "R\<lparr>attempts := (attempts R)(getClientKey req \<mapsto>
              \<lparr>count = c + 1, resetAt = r, blockedUntil = None\<rparr>)\<rparr>"
  from Cons.prems have step: "middleware R req t = (Next, ?R)"
    by (simp add: middleware_counts)
  have "requests ?R req ts =
    (replicate (length ts) Next,
     ?R\<lparr>attempts := (attempts ?R)(getClientKey req \<mapsto>
        \<lparr>count = c', resetAt = r, blockedUntil = None\<rparr>)\<rparr>)"
    using Cons.prems by (intro Cons.IH) simp_all
  then have "requests ?R req ts =
    (replicate (length ts) Next,
     R\<lparr>attempts := (attempts R)(getClientKey req \<mapsto>
        \<lparr>count = c', resetAt = r, blockedUntil = None\<rparr>)\<rparr>)"
    by simp
  with step show ?case
    by (simp only: requests.simps prod.case length_Cons replicate_Suc)
qed


section \<open>Throttle\<close>

text \<open>
  Claim C7, as stated, fails for the threshold 0: the first request of a window always
  passes, so with \<open>M = 0\<close> attempt \<open>M + 1\<close> is allowed and no lockout is set.
\<close>

theorem throttle_counterexample:
  "maxAttempts (new_RateLimiter 1000 0 2000) = 0
   \<and> fst (middleware (new_RateLimiter 1000 0 2000)
         \<lparr>req_ip = Some ''127.0.0.1'', req_remoteAddress = None\<rparr> 5) = Next
   \<and> attempts (snd (middleware (new_RateLimiter 1000 0 2000)
         \<lparr>req_ip = Some ''127.0.0.1'', req_remoteAddress = None\<rparr> 5)) ''127.0.0.1''
       = Some \<lparr>count = 1, resetAt = 1005, blockedUntil = None\<rparr>"
  by (simp add: new_RateLimiter_def middleware_def Let_def blocked_until_def getClientKey_def
      or_else_def)

text \<open>
  Claim C7, amended: the threshold is at least 1. For every request (client key) and
  limiter with window \<open>W\<close>, threshold \<open>M \<ge> 1\<close> and lockout \<open>L\<close>:
  \<^item> when the key has no entry, or an entry whose window has expired, and no lockout in
    force, the requests at \<open>t\<^sub>1\<close> and at the \<open>M - 1\<close> times \<open>ts\<close>, none later than \<open>t\<^sub>1 + W\<close>,
    are all allowed, and the next request at a time \<open>t'\<close> not later than \<open>t\<^sub>1 + W\<close> is denied
    with \<open>retryAfter = \<lceil>L / 1000\<rceil>\<close> and sets the lockout deadline \<open>t' + L\<close>;
  \<^item> while the lockout deadline \<open>b\<close> of the key is in the future (the clock is not
    negative), a request is denied with \<open>retryAfter = \<lceil>(b - t) / 1000\<rceil> \<ge> 1\<close> and the
    limiter is unchanged, whatever the count and the window of the entry;
  \<^item> \<open>resetClient\<close> removes the entry of the key, count and lockout, and leaves the other
    keys; the next request of the key is allowed and opens a window with count 1.
\<close>

theorem throttle:
  assumes M: "1 \<le> maxAttempts R"
  shows "(blocked_until (attempts R (getClientKey req)) t1 = None
          \<and> (attempts R (getClientKey req) = None
              \<or> (\<exists>e. attempts R (getClientKey req) = Some e \<and> resetAt e < t1))
          \<and> int (length ts) + 1 = maxAttempts R
          \<and> (\<forall>t \<in> set ts. t \<le> t1 + windowMs R) \<and> t' \<le> t1 + windowMs R
          \<longrightarrow> fst (requests R req (t1 # ts)) = replicate (nat (maxAttempts R)) Next
              \<and> fst (middleware (snd (requests R req (t1 # ts))) req t')
                  = TooManyRequests (ceil_div (blockDurationMs R) 1000)
              \<and> attempts (snd (middleware (snd (requests R req (t1 # ts))) req t'))
                   (getClientKey req)
                  = Some \<lparr>count = maxAttempts R + 1, resetAt = t1 + windowMs R,
                          blockedUntil = Some (t' + blockDurationMs R)\<rparr>)
    \<and> (\<forall>e b. attempts R (getClientKey req) = Some e \<and> blockedUntil e = Some b
              \<and> 0 \<le> t \<and> t < b
          \<longrightarrow> middleware R req t = (TooManyRequests (ceil_div (b - t) 1000), R)
              \<and> 1 \<le> ceil_div (b - t) 1000)
    \<and> attempts (resetClient R req) (getClientKey req) = None
    \<and> (\<forall>k. k \<noteq> getClientKey req \<longrightarrow> attempts (resetClient R req) k = attempts R k)
    \<and> middleware (resetClient R req) req t
        = (Next, (resetClient R req)\<lparr>attempts := (attempts (resetClient R req))(getClientKey req \<mapsto>
             \<lparr>count = 1, resetAt = t + windowMs R, blockedUntil = None\<rparr>)\<rparr>)"
proof (intro conjI allI impI)
  assume a: "blocked_until (attempts R (getClientKey req)) t1 = None
          \<and> (attempts R (getClientKey req) = None
              \<or> (\<exists>e. attempts R (getClientKey req) = Some e \<and> resetAt e < t1))
          \<and> int (length ts) + 1 = maxAttempts R
          \<and> (\<forall>t \<in> set ts. t \<le> t1 + windowMs R) \<and> t' \<le> t1 + windowMs R"
  let ?k = "getClientKey req"
  let ?R1 = "R\<lparr>attempts := (attempts R)(?k \<mapsto>
       \<lparr>count = 1, resetAt = t1 + windowMs R, blockedUntil = None\<rparr>)\<rparr>"
  let ?R2 = "?R1\<lparr>attempts := (attempts ?R1)(?k \<mapsto>
       \<lparr>count = maxAttempts R, resetAt = t1 + windowMs R, blockedUntil = None\<rparr>)\<rparr>"
  from a have first: "middleware R req t1 = (Next, ?R1)"
    by (intro middleware_opens_window) simp_all
  have rest: "requests ?R1 req ts = (replicate (length ts) Next, ?R2)"
    using a by (intro requests_within_limit [where c = 1]) simp_all
  from first rest have run: "requests R req (t1 # ts) = (replicate (Suc (length ts)) Next, ?R2)"
    by simp
  from a have len: "Suc (length ts) = nat (maxAttempts R)"
    by linarith
  from run len show "fst (requests R req (t1 # ts)) = replicate (nat (maxAttempts R)) Next"
    by simp
  have e2: "attempts ?R2 ?k
      = Some \<lparr>count = maxAttempts R, resetAt = t1 + windowMs R, blockedUntil = None\<rparr>"
    by simp
  have last: "middleware ?R2 req t' =
     (TooManyRequests (ceil_div (blockDurationMs ?R2) 1000),
      ?R2\<lparr>attempts := (attempts ?R2)(?k \<mapsto>
         \<lparr>count = maxAttempts R + 1, resetAt = t1 + windowMs R,
          blockedUntil = Some (t' + blockDurationMs ?R2)\<rparr>)\<rparr>)"
    using a by (subst middleware_counts [OF e2]) simp_all
  from run last
  show "fst (middleware (snd (requests R req (t1 # ts))) req t')
          = TooManyRequests (ceil_div (blockDurationMs R) 1000)"
    by simp
  from run last
  show "attempts (snd (middleware (snd (requests R req (t1 # ts))) req t')) (getClientKey req)
          = Some \<lparr>count = maxAttempts R + 1, resetAt = t1 + windowMs R,
                  blockedUntil = Some (t' + blockDurationMs R)\<rparr>"
    by simp
next
  fix e b
  assume "attempts R (getClientKey req) = Some e \<and> blockedUntil e = Some b \<and> 0 \<le> t \<and> t < b"
  then show "middleware R req t = (TooManyRequests (ceil_div (b - t) 1000), R)"
    by (simp add: middleware_def Let_def blocked_until_def)
next
  fix e b
  assume "attempts R (getClientKey req) = Some e \<and> blockedUntil e = Some b \<and> 0 \<le> t \<and> t < b"
  then have "0 < b - t"
    by simp
  then show "1 \<le> ceil_div (b - t) 1000"
    unfolding ceil_div_def by linarith
next
  show "middleware (resetClient R req) req t
        = (Next, (resetClient R req)\<lparr>attempts := (attempts (resetClient R req))(getClientKey req \<mapsto>
             \<lparr>count = 1, resetAt = t + windowMs R, blockedUntil = None\<rparr>)\<rparr>)"
    by (subst middleware_opens_window) (simp_all add: resetClient_def blocked_until_def)
qed (simp_all add: resetClient_def)

theorem throttle_witness:
  "1 \<le> maxAttempts sample_limiter
   \<and> blocked_until (attempts sample_limiter (getClientKey sample_request)) 0 = None
   \<and> attempts sample_limiter (getClientKey sample_request) = None
   \<and> int (length [10, 20 :: int]) + 1 = maxAttempts sample_limiter
   \<and> 10 \<le> 0 + windowMs sample_limiter \<and> 20 \<le> 0 + windowMs sample_limiter
   \<and> 30 \<le> 0 + windowMs sample_limiter
   \<and> fst (requests sample_limiter sample_request [0, 10, 20]) = [Next, Next, Next]
   \<and> fst (middleware (snd (requests sample_limiter sample_request [0, 10, 20]))
         sample_request 30) = TooManyRequests 2
   \<and> attempts (snd (middleware (snd (requests sample_limiter sample_request [0, 10, 20]))
         sample_request 30)) ''127.0.0.1''
       = Some \<lparr>count = 4, resetAt = 1000, blockedUntil = Some 2030\<rparr>
   \<and> 1 \<le> maxAttempts blocked_limiter
   \<and> attempts blocked_limiter (getClientKey sample_request)
       = Some \<lparr>count = 4, resetAt = 1000, blockedUntil = Some 2030\<rparr>
   \<and> (0::int) \<le> 100 \<and> (100::int) < 2030
   \<and> middleware blocked_limiter sample_request 100 = (TooManyRequests 2, blocked_limiter)
   \<and> attempts (resetClient blocked_limiter sample_request) ''127.0.0.1'' = None
   \<and> fst (middleware (resetClient blocked_limiter sample_request) sample_request 100) = Next"
proof -
  have k: "getClientKey sample_request = ''127.0.0.1''"
    by (simp add: getClientKey_def or_else_def sample_request_def)
  have m: "1 \<le> maxAttempts sample_limiter" and m': "1 \<le> maxAttempts blocked_limiter"
    by (simp_all add: sample_limiter_def blocked_limiter_def new_RateLimiter_def)
  have fresh: "attempts sample_limiter (getClientKey sample_request) = None"
    by (simp add: sample_limiter_def new_RateLimiter_def)
  then have nb: "blocked_until (attempts sample_limiter (getClientKey sample_request)) 0 = None"
    by (simp add: blocked_until_def)
  have len: "int (length [10, 20 :: int]) + 1 = maxAttempts sample_limiter"
    and w: "\<forall>t \<in> set [10, 20]. t \<le> 0 + windowMs sample_limiter"
    and w': "30 \<le> 0 + windowMs sample_limiter"
    by (simp_all add: sample_limiter_def new_RateLimiter_def)
  have l: "blockDurationMs sample_limiter = 2000" and ws: "windowMs sample_limiter = 1000"
    and mx: "maxAttempts sample_limiter = 3"
    by (simp_all add: sample_limiter_def new_RateLimiter_def)
  from throttle [OF m, of sample_request 0 "[10, 20]" 30] nb fresh len w w'
  have a: "fst (requests sample_limiter sample_request [0, 10, 20]) = [Next, Next, Next]
     \<and> fst (middleware (snd (requests sample_limiter sample_request [0, 10, 20]))
         sample_request 30) = TooManyRequests 2
     \<and> attempts (snd (middleware (snd (requests sample_limiter sample_request [0, 10, 20]))
         sample_request 30)) ''127.0.0.1''
       = Some \<lparr>count = 4, resetAt = 1000, blockedUntil = Some 2030\<rparr>"
    by (simp add: l ws mx k numeral_3_eq_3 ceil_div_def del: requests.simps)
  have e: "attempts blocked_limiter (getClientKey sample_request)
       = Some \<lparr>count = 4, resetAt = 1000, blockedUntil = Some 2030\<rparr>"
    by (simp add: k blocked_limiter_def)
  from throttle [OF m', of sample_request 0 "[]" 0 100] e
  have b: "middleware blocked_limiter sample_request 100 = (TooManyRequests 2, blocked_limiter)"
    by (simp add: ceil_div_def del: requests.simps)
  from throttle [OF m', of sample_request 0 "[]" 0 100]
  have r: "attempts (resetClient blocked_limiter sample_request) ''127.0.0.1'' = None
     \<and> fst (middleware (resetClient blocked_limiter sample_request) sample_request 100) = Next"
    by (simp add: k del: requests.simps)
  from m nb fresh len w w' a m' e b r show ?thesis
    by simp
qed


section \<open>Domain matching\<close>

lemma suffix_dot_iff: "suffix (CHR ''.'' # e) t \<longleftrightarrow> spec_strict_subdomain t e"
proof
  assume "suffix (CHR ''.'' # e) t"
  then obtain p where t: "t = p @ ''.'' @ e"
    by (auto simp: suffix_def)
  then have "length t - length e = Suc (length p)"
    by simp
  with t show "spec_strict_subdomain t e"
    by (simp add: spec_strict_subdomain_def nth_append)
next
  assume s: "spec_strict_subdomain t e"
  define n where "n = length t - length e - 1"
  from s have n: "n < length t" and m: "Suc n = length t - length e"
    by (auto simp: spec_strict_subdomain_def n_def)
  from s m have d: "drop (Suc n) t = e" and c: "t ! n = CHR ''.''"
    by (simp_all add: spec_strict_subdomain_def n_def)
  from n have "t = take n t @ t ! n # drop (Suc n) t"
    by (rule id_take_nth_drop)
  with d c have "t = take n t @ ''.'' @ e"
    by simp
  then show "suffix (CHR ''.'' # e) t"
    by (metis append_Cons append_Nil suffixI)
qed

lemma lower_char_idem: "lower_char (lower_char c) = lower_char c"
proof (cases "65 \<le> (of_char c :: nat) \<and> (of_char c :: nat) \<le> 90")
  case True
  then have "(of_char (char_of ((of_char c :: nat) + 32)) :: nat) = of_char c + 32"
    by (simp add: of_char_of)
  with True show ?thesis
    by (simp add: lower_char_def)
next
  case False
  then have "lower_char c = c"
    by (auto simp: lower_char_def)
  then show ?thesis
    by simp
qed

lemma sample_toLowerCase_idem:
  "toLowerCase sample_platform (toLowerCase sample_platform s) = toLowerCase sample_platform s"
  by (simp add: sample_toLowerCase_def lower_char_idem)

text \<open>
  Claim C5, as stated, fails. The claim takes both domains normalized by lowercasing,
  stripping the scheme, stripping a leading \<open>www.\<close> and stripping path and query. The code
  strips the \<open>www.\<close> from the host name of the URL parser only; for an input that the parser
  rejects (a host with a space, as in the test "handles invalid domain gracefully") it
  returns the trimmed and lowered input with its \<open>www.\<close>. So the entry domain
  \<open>www.my site.com\<close> and the target \<open>my site.com\<close>, equal after the normalization of the
  claim, do not match.
\<close>

theorem domain_matching_counterexample:
  "spec_normalize sample_platform ''www.my site.com'' = ''my site.com''
   \<and> spec_normalize sample_platform ''my site.com'' = ''my site.com''
   \<and> spec_match (spec_normalize sample_platform ''my site.com'')
        (spec_normalize sample_platform ''www.my site.com'')
   \<and> url_hostname sample_platform ''https://www.my site.com'' = None
   \<and> normalizeDomain sample_platform ''www.my site.com'' = ''www.my site.com''
   \<and> normalizeDomain sample_platform ''my site.com'' = ''my site.com''
   \<and> \<not> domainMatches sample_platform ''www.my site.com'' ''my site.com''"
  by code_simp

text \<open>
  Claim C5, amended: the normalization is that of \<open>normalizeDomain\<close>. For every stored entry
  domain and target domain, \<open>domainMatches\<close> holds exactly when the normalized target equals
  the normalized entry domain or is a strict dot-boundary subdomain of it; and when the
  normalized entry domain is a strict dot-boundary subdomain of the normalized target (the
  target is the broader, parent domain), \<open>domainMatches\<close> does not hold. The normalization
  of an input \<open>x\<close>, with \<open>https://\<close> put before it when it has no \<open>://\<close>, is
  \<^item> when the URL parser accepts it: the host name of the parser (no scheme, path or
    query), lowered after one leading \<open>www.\<close> is removed, so that a host name \<open>www.r\<close>
    gives the lowered \<open>r\<close>;
  \<^item> when the URL parser rejects it: the input trimmed and lowered, and nothing stripped;
  \<^item> lowercase in both cases: lowering it again changes nothing, when lowering twice is
    lowering once.
\<close>

theorem domain_matching:
  "domainMatches P entryDomain targetDomain
     = spec_match (normalizeDomain P targetDomain) (normalizeDomain P entryDomain)
   \<and> (spec_strict_subdomain (normalizeDomain P entryDomain) (normalizeDomain P targetDomain)
        \<longrightarrow> \<not> domainMatches P entryDomain targetDomain)
   \<and> (\<forall>h. url_hostname P (if sublist ''://'' x then x else ''https://'' @ x) = Some h
        \<longrightarrow> normalizeDomain P x = toLowerCase P (strip_www h))
   \<and> (\<forall>r. url_hostname P (if sublist ''://'' x then x else ''https://'' @ x) = Some (''www.'' @ r)
        \<longrightarrow> normalizeDomain P x = toLowerCase P r)
   \<and> (url_hostname P (if sublist ''://'' x then x else ''https://'' @ x) = None
        \<longrightarrow> normalizeDomain P x = toLowerCase P (trim P x))
   \<and> ((\<forall>s. toLowerCase P (toLowerCase P s) = toLowerCase P s)
        \<longrightarrow> toLowerCase P (normalizeDomain P x) = normalizeDomain P x)"
proof (intro conjI allI impI)
  show "domainMatches P entryDomain targetDomain
     = spec_match (normalizeDomain P targetDomain) (normalizeDomain P entryDomain)"
    by (simp add: domainMatches_def Let_def spec_match_def suffix_dot_iff)
next
  assume "spec_strict_subdomain (normalizeDomain P entryDomain) (normalizeDomain P targetDomain)"
  then have "\<not> spec_match (normalizeDomain P targetDomain) (normalizeDomain P entryDomain)"
    by (auto simp: spec_match_def spec_strict_subdomain_def)
  then show "\<not> domainMatches P entryDomain targetDomain"
    by (simp add: domainMatches_def Let_def spec_match_def suffix_dot_iff)
next
  fix h
  assume "url_hostname P (if sublist ''://'' x then x else ''https://'' @ x) = Some h"
  then show "normalizeDomain P x = toLowerCase P (strip_www h)"
    by (simp add: normalizeDomain_def Let_def)
next
  fix r
  assume "url_hostname P (if sublist ''://'' x then x else ''https://'' @ x) = Some (''www.'' @ r)"
  then show "normalizeDomain P x = toLowerCase P r"
    by (simp add: normalizeDomain_def Let_def strip_www_def)
next
  assume "url_hostname P (if sublist ''://'' x then x else ''https://'' @ x) = None"
  then show "normalizeDomain P x = toLowerCase P (trim P x)"
    by (simp add: normalizeDomain_def Let_def)
next
  assume "\<forall>s. toLowerCase P (toLowerCase P s) = toLowerCase P s"
  then show "toLowerCase P (normalizeDomain P x) = normalizeDomain P x"
    by (simp add: normalizeDomain_def Let_def split: option.splits)
qed

theorem domain_matching_witness:
  "domainMatches sample_platform ''example.com'' ''sub.example.com''
   \<and> domainMatches sample_platform ''www.example.com'' ''https://Example.com/login?next=1''
   \<and> spec_strict_subdomain (normalizeDomain sample_platform ''sub.example.com'')
        (normalizeDomain sample_platform ''example.com'')
   \<and> \<not> domainMatches sample_platform ''sub.example.com'' ''example.com''
   \<and> \<not> domainMatches sample_platform ''example.com'' ''badexample.com''
   \<and> url_hostname sample_platform ''https://WWW.Example.com/path?q=1'' = Some ''www.example.com''
   \<and> normalizeDomain sample_platform ''WWW.Example.com/path?q=1'' = ''example.com''
   \<and> url_hostname sample_platform ''https:// Not A Valid URL '' = None
   \<and> normalizeDomain sample_platform '' Not A Valid URL '' = ''not a valid url''
   \<and> toLowerCase sample_platform (normalizeDomain sample_platform '' Not A Valid URL '')
       = normalizeDomain sample_platform '' Not A Valid URL ''"
proof -
  have n1: "normalizeDomain sample_platform ''sub.example.com'' = ''sub.example.com''"
    and n2: "normalizeDomain sample_platform ''example.com'' = ''example.com''"
    and n3: "normalizeDomain sample_platform ''www.example.com'' = ''example.com''"
    and n4: "normalizeDomain sample_platform ''https://Example.com/login?next=1'' = ''example.com''"
    and n5: "normalizeDomain sample_platform ''badexample.com'' = ''badexample.com''"
    by code_simp+
  have s1: "spec_strict_subdomain ''sub.example.com'' ''example.com''"
    and s2: "\<not> spec_strict_subdomain ''badexample.com'' ''example.com''"
    by code_simp+
  have f1: "(if sublist ''://'' ''WWW.Example.com/path?q=1'' then ''WWW.Example.com/path?q=1''
             else ''https://'' @ ''WWW.Example.com/path?q=1'') = ''https://WWW.Example.com/path?q=1''"
    and f2: "(if sublist ''://'' '' Not A Valid URL '' then '' Not A Valid URL ''
             else ''https://'' @ '' Not A Valid URL '') = ''https:// Not A Valid URL ''"
    by code_simp+
  have h1: "url_hostname sample_platform ''https://WWW.Example.com/path?q=1''
      = Some (''www.'' @ ''example.com'')"
    and h2: "url_hostname sample_platform ''https:// Not A Valid URL '' = None"
    and l1: "toLowerCase sample_platform ''example.com'' = ''example.com''"
    and l2: "toLowerCase sample_platform (trim sample_platform '' Not A Valid URL '')
      = ''not a valid url''"
    by code_simp+
  from domain_matching [of sample_platform "''example.com''" "''sub.example.com''"] n1 n2 s1
  have a: "domainMatches sample_platform ''example.com'' ''sub.example.com''"
    by (simp add: spec_match_def)
  from domain_matching [of sample_platform "''www.example.com''"
      "''https://Example.com/login?next=1''"] n3 n4
  have b: "domainMatches sample_platform ''www.example.com'' ''https://Example.com/login?next=1''"
    by (simp add: spec_match_def)
  from s1 have s1': "spec_strict_subdomain (normalizeDomain sample_platform ''sub.example.com'')
        (normalizeDomain sample_platform ''example.com'')"
    by (simp add: n1 n2)
  from domain_matching [of sample_platform "''sub.example.com''" "''example.com''"] s1'
  have c: "\<not> domainMatches sample_platform ''sub.example.com'' ''example.com''"
    by blast
  from domain_matching [of sample_platform "''example.com''" "''badexample.com''"] n2 n5 s2
  have d: "\<not> domainMatches sample_platform ''example.com'' ''badexample.com''"
    by (simp add: spec_match_def)
  have e: "normalizeDomain sample_platform ''WWW.Example.com/path?q=1'' = ''example.com''"
    using domain_matching [of sample_platform _ _ "''WWW.Example.com/path?q=1''"] h1 l1
    unfolding f1 by metis
  have f: "normalizeDomain sample_platform '' Not A Valid URL '' = ''not a valid url''"
    using domain_matching [of sample_platform _ _ "'' Not A Valid URL ''"] h2 l2
    unfolding f2 by metis
  have g: "toLowerCase sample_platform (normalizeDomain sample_platform '' Not A Valid URL '')
       = normalizeDomain sample_platform '' Not A Valid URL ''"
    using domain_matching [of sample_platform _ _ "'' Not A Valid URL ''"]
      sample_toLowerCase_idem by blast
  have h1': "url_hostname sample_platform ''https://WWW.Example.com/path?q=1''
      = Some ''www.example.com''"
    using h1 by simp
  from a b c d s1' e f g h1' h2 show ?thesis
    by blast
qed

end
